theory Spec2Isabelle
  imports Complex_Main "HOL-Library.Word"
begin

chapter \<open>The submission verification pipeline of the FIR registry\<close>

text \<open>
  The theory embeds the parts of the repository that the pipeline's specification speaks
  about: the local ensemble of \<^verbatim>\<open>MLService\<close> that scores the agreement of two texts, the
  fallback of \<^verbatim>\<open>STTService\<close>, the handler of \<^verbatim>\<open>POST /api/submitFIR\<close>, the contract
  \<^verbatim>\<open>FIRRegistry\<close>, and the text cleaners of \<^verbatim>\<open>OCRService\<close> and \<^verbatim>\<open>STTService\<close>. The
  definitions come first, each named after the function it renders; the properties follow.
\<close>

section \<open>JavaScript numbers\<close>

text \<open>
  The scoring code of \<^verbatim>\<open>backend/services/ml.js\<close> computes with JavaScript numbers. A number
  is modelled as a real or one of the three special values of IEEE arithmetic. Arithmetic on
  the finite values is exact: the rounding of double precision is not modelled. The sign of
  zero is not modelled either (no operation below can tell the two zeros apart except
  division, and every divisor in the program is a size or a product of square roots).
\<close>

datatype jsnum = NaN | PInf | NInf | Num real

fun js_add :: "jsnum \<Rightarrow> jsnum \<Rightarrow> jsnum" where
  "js_add (Num a) (Num b) = Num (a + b)"
| "js_add NaN _ = NaN"
| "js_add _ NaN = NaN"
| "js_add PInf NInf = NaN"
| "js_add NInf PInf = NaN"
| "js_add PInf _ = PInf"
| "js_add _ PInf = PInf"
| "js_add NInf _ = NInf"
| "js_add _ NInf = NInf"

fun js_neg :: "jsnum \<Rightarrow> jsnum" where
  "js_neg NaN = NaN"
| "js_neg PInf = NInf"
| "js_neg NInf = PInf"
| "js_neg (Num a) = Num (- a)"

definition js_sub :: "jsnum \<Rightarrow> jsnum \<Rightarrow> jsnum" where
  "js_sub a b = js_add a (js_neg b)"

text \<open>The sign of an infinite product or quotient: \<open>inf_of True\<close> is \<open>+Infinity\<close>.\<close>

definition inf_of :: "bool \<Rightarrow> jsnum" where
  "inf_of positive = (if positive then PInf else NInf)"

fun js_mul :: "jsnum \<Rightarrow> jsnum \<Rightarrow> jsnum" where
  "js_mul (Num a) (Num b) = Num (a * b)"
| "js_mul NaN _ = NaN"
| "js_mul _ NaN = NaN"
| "js_mul PInf (Num b) = (if b = 0 then NaN else inf_of (0 < b))"
| "js_mul NInf (Num b) = (if b = 0 then NaN else inf_of (b < 0))"
| "js_mul (Num a) PInf = (if a = 0 then NaN else inf_of (0 < a))"
| "js_mul (Num a) NInf = (if a = 0 then NaN else inf_of (a < 0))"
| "js_mul PInf PInf = PInf"
| "js_mul NInf NInf = PInf"
| "js_mul PInf NInf = NInf"
| "js_mul NInf PInf = NInf"

fun js_div :: "jsnum \<Rightarrow> jsnum \<Rightarrow> jsnum" where
  "js_div (Num a) (Num b) =
     (if b = 0 then (if a = 0 then NaN else inf_of (0 < a)) else Num (a / b))"
| "js_div NaN _ = NaN"
| "js_div _ NaN = NaN"
| "js_div (Num a) PInf = Num 0"
| "js_div (Num a) NInf = Num 0"
| "js_div PInf (Num b) = inf_of (0 \<le> b)"
| "js_div NInf (Num b) = inf_of (b < 0)"
| "js_div _ _ = NaN"

fun Math_sqrt :: "jsnum \<Rightarrow> jsnum" where
  "Math_sqrt (Num a) = (if a < 0 then NaN else Num (sqrt a))"
| "Math_sqrt PInf = PInf"
| "Math_sqrt _ = NaN"

text \<open>\<^verbatim>\<open>Math.round\<close> rounds to the nearest integer, a half towards \<open>+Infinity\<close>.\<close>

fun Math_round :: "jsnum \<Rightarrow> jsnum" where
  "Math_round (Num a) = Num (of_int \<lfloor>a + 1 / 2\<rfloor>)"
| "Math_round x = x"

fun Math_max :: "jsnum \<Rightarrow> jsnum \<Rightarrow> jsnum" where
  "Math_max (Num a) (Num b) = Num (max a b)"
| "Math_max NaN _ = NaN"
| "Math_max _ NaN = NaN"
| "Math_max PInf _ = PInf"
| "Math_max _ PInf = PInf"
| "Math_max NInf b = b"
| "Math_max a NInf = a"

fun Math_min :: "jsnum \<Rightarrow> jsnum \<Rightarrow> jsnum" where
  "Math_min (Num a) (Num b) = Num (min a b)"
| "Math_min NaN _ = NaN"
| "Math_min _ NaN = NaN"
| "Math_min NInf _ = NInf"
| "Math_min _ NInf = NInf"
| "Math_min PInf b = b"
| "Math_min a PInf = a"

text \<open>\<^verbatim>\<open>a === b\<close> and \<^verbatim>\<open>a >= b\<close> on numbers: every comparison with \<open>NaN\<close> is false.\<close>

fun js_eq :: "jsnum \<Rightarrow> jsnum \<Rightarrow> bool" where
  "js_eq NaN _ = False"
| "js_eq _ NaN = False"
| "js_eq a b = (a = b)"

fun js_ge :: "jsnum \<Rightarrow> jsnum \<Rightarrow> bool" where
  "js_ge (Num a) (Num b) = (b \<le> a)"
| "js_ge NaN _ = False"
| "js_ge _ NaN = False"
| "js_ge PInf _ = True"
| "js_ge _ NInf = True"
| "js_ge _ _ = False"


section \<open>Texts, tokens and stop words\<close>

text \<open>
  A text is a list of code units. The type \<^typ>\<open>char\<close> covers the code units 0 to 255,
  which is where the texts of the scoring stage live: \<^verbatim>\<open>calculateSimilarity\<close> cleans both
  texts down to lower-case word characters and single spaces before it scores them.
  \<^verbatim>\<open>toLowerCase\<close> maps the upper-case letters of that range to their lower-case partners.
\<close>

definition lower_unit :: "char \<Rightarrow> char" where
  "lower_unit c =
     (let n = (of_char c :: nat)
      in if (65 \<le> n \<and> n \<le> 90) \<or> (192 \<le> n \<and> n \<le> 222 \<and> n \<noteq> 215)
         then char_of (n + 32) else c)"

definition toLowerCase :: "string \<Rightarrow> string" where
  "toLowerCase s = map lower_unit s"

text \<open>
  The tokenizer is \<^verbatim>\<open>natural.WordTokenizer\<close>, a package outside the repository, so the scorer
  below takes the tokenizer as a parameter. \<open>WordTokenizer_tokenize\<close> is that tokenizer on
  code units below 256, for concrete runs: it splits at every run of characters other than
  letters, digits and the underscore, and returns the non-empty pieces.
\<close>

definition is_word_unit :: "char \<Rightarrow> bool" where
  "is_word_unit c =
     (let n = (of_char c :: nat)
      in (48 \<le> n \<and> n \<le> 57) \<or> (65 \<le> n \<and> n \<le> 90) \<or> n = 95 \<or> (97 \<le> n \<and> n \<le> 122))"

fun split_words :: "string \<Rightarrow> string \<Rightarrow> string list" where
  "split_words cur [] = (if cur = [] then [] else [cur])"
| "split_words cur (c # cs) =
     (if is_word_unit c then split_words (cur @ [c]) cs
      else (if cur = [] then [] else [cur]) @ split_words [] cs)"

definition WordTokenizer_tokenize :: "string \<Rightarrow> string list" where
  "WordTokenizer_tokenize s = split_words [] s"

definition stopWords :: "string list" where
  "stopWords =
     [''the'', ''a'', ''an'', ''and'', ''or'', ''but'', ''in'', ''on'', ''at'', ''to'', ''for'',
      ''of'', ''with'', ''by'', ''is'', ''are'', ''was'', ''were'', ''be'', ''been'', ''being'',
      ''have'', ''has'', ''had'', ''do'', ''does'', ''did'', ''will'', ''would'', ''could'',
      ''should'', ''may'', ''might'', ''must'', ''can'', ''this'', ''that'', ''these'', ''those'',
      ''i'', ''you'', ''he'', ''she'', ''it'', ''we'', ''they'', ''me'', ''him'', ''her'', ''us'',
      ''them'', ''my'', ''your'', ''his'', ''her'', ''its'', ''our'', ''their'']"

definition removeStopWords :: "string list \<Rightarrow> string list" where
  "removeStopWords tokens =
     filter (\<lambda>token. token \<notin> set stopWords \<and> length token > 2) tokens"

section \<open>The three metrics\<close>

text \<open>
  \<^verbatim>\<open>new Set(xs)\<close> keeps the first occurrence of every element, in insertion order; the
  set is modelled as the list of its elements in that order, and \<^verbatim>\<open>size\<close> is its length.
\<close>

definition Set_of :: "'a list \<Rightarrow> 'a list" where
  "Set_of xs = foldl (\<lambda>s x. if x \<in> set s then s else s @ [x]) [] xs"

definition calculateJaccardSimilarity :: "'a list \<Rightarrow> 'a list \<Rightarrow> jsnum" where
  "calculateJaccardSimilarity words1 words2 =
     (let set1 = Set_of words1;
          set2 = Set_of words2;
          intersection = Set_of (filter (\<lambda>x. x \<in> set set2) set1);
          union = Set_of (set1 @ set2)
      in js_div (Num (real (length intersection))) (Num (real (length union))))"

definition calculateCosineSimilarity :: "'a list \<Rightarrow> 'a list \<Rightarrow> jsnum" where
  "calculateCosineSimilarity words1 words2 =
     (let allWords = Set_of (words1 @ words2);
          vector1 = map (\<lambda>word. length (filter (\<lambda>w. w = word) words1)) allWords;
          vector2 = map (\<lambda>word. length (filter (\<lambda>w. w = word) words2)) allWords;
          dotProduct =
            foldl (\<lambda>sum (val, i). sum + val * vector2 ! i) 0 (zip vector1 [0..<length vector1]);
          magnitude1 = Math_sqrt (Num (real (foldl (\<lambda>sum val. sum + val * val) 0 vector1)));
          magnitude2 = Math_sqrt (Num (real (foldl (\<lambda>sum val. sum + val * val) 0 vector2)))
      in if js_eq magnitude1 (Num 0) \<or> js_eq magnitude2 (Num 0) then Num 0
         else js_div (Num (real dotProduct)) (js_mul magnitude1 magnitude2))"

text \<open>
  The edit distance fills a matrix with one row per prefix of \<open>str2\<close>. Every write
  \<^verbatim>\<open>matrix[i][j] = v\<close> of the loops lands on an existing cell or on the cell right after
  the end of the row, which extends the row by one.
\<close>

definition array_put :: "'a list \<Rightarrow> nat \<Rightarrow> 'a \<Rightarrow> 'a list" where
  "array_put row j v = (if j < length row then row[j := v] else row @ [v])"

function lev_inner :: "'a list \<Rightarrow> 'a list \<Rightarrow> nat list list \<Rightarrow> nat \<Rightarrow> nat \<Rightarrow> nat list list" where
  "lev_inner str1 str2 matrix i j =
     (if j \<le> length str1 then
        lev_inner str1 str2
          (matrix[i := array_put (matrix ! i) j
             (if str2 ! (i - 1) = str1 ! (j - 1) then matrix ! (i - 1) ! (j - 1)
              else min (min (matrix ! (i - 1) ! (j - 1) + 1) (matrix ! i ! (j - 1) + 1))
                     (matrix ! (i - 1) ! j + 1))])
          i (j + 1)
      else matrix)"
  by pat_completeness auto
termination
  by (relation "measure (\<lambda>(str1, str2, matrix, i, j). Suc (length str1) - j)") auto

function lev_outer :: "'a list \<Rightarrow> 'a list \<Rightarrow> nat list list \<Rightarrow> nat \<Rightarrow> nat list list" where
  "lev_outer str1 str2 matrix i =
     (if i \<le> length str2 then lev_outer str1 str2 (lev_inner str1 str2 matrix i 1) (i + 1)
      else matrix)"
  by pat_completeness auto
termination
  by (relation "measure (\<lambda>(str1, str2, matrix, i). Suc (length str2) - i)") auto

definition calculateLevenshteinDistance :: "'a list \<Rightarrow> 'a list \<Rightarrow> nat" where
  "calculateLevenshteinDistance str1 str2 =
     (let rows = map (\<lambda>i. [i]) [0..<length str2 + 1];
          matrix = rows[0 := foldl (\<lambda>row j. array_put row j j) (rows ! 0) [0..<length str1 + 1]]
      in lev_outer str1 str2 matrix 1 ! length str2 ! length str1)"

definition findCommonWords :: "'a list \<Rightarrow> 'a list \<Rightarrow> 'a list" where
  "findCommonWords words1 words2 =
     (let set1 = Set_of words1; set2 = Set_of words2
      in filter (\<lambda>word. word \<in> set set2) set1)"

section \<open>The local ensemble\<close>

record similarity_result =
  score :: jsnum
  method_tag :: string
  jaccardSimilarity :: jsnum
  cosineSimilarity :: jsnum
  levenshteinDistance :: jsnum
  commonWords :: nat

definition calculateSimilarityFallback ::
  "(string \<Rightarrow> string list) \<Rightarrow> string \<Rightarrow> string \<Rightarrow> similarity_result" where
  "calculateSimilarityFallback tokenize ocrText sttText =
     (let ocrTokens = tokenize (toLowerCase ocrText);
          sttTokens = tokenize (toLowerCase sttText);
          ocrWords = removeStopWords ocrTokens;
          sttWords = removeStopWords sttTokens;
          jaccard = calculateJaccardSimilarity ocrWords sttWords;
          cosine = calculateCosineSimilarity ocrWords sttWords;
          distance = Num (real (calculateLevenshteinDistance ocrText sttText));
          common = findCommonWords ocrWords sttWords;
          finalScore =
            Math_round
              (js_add (js_add (js_mul jaccard (Num 40)) (js_mul cosine (Num 40)))
                 (js_mul (js_div (Math_max (Num 0) (js_sub (Num 100) distance)) (Num 100))
                    (Num 20)))
      in \<lparr> score = Math_min (Num 100) (Math_max (Num 0) finalScore),
           method_tag = ''nlp-fallback'',
           jaccardSimilarity = Math_round (js_mul jaccard (Num 100)),
           cosineSimilarity = Math_round (js_mul cosine (Num 100)),
           levenshteinDistance = Math_round distance,
           commonWords = length common \<rparr>)"


section \<open>The speech transcriber\<close>

text \<open>
  A JavaScript \<^verbatim>\<open>Error\<close> with its message; a call that throws returns \<open>Inl\<close> of it.
\<close>

datatype error = Error string

record stt_result =
  stt_text :: string
  stt_confidence :: jsnum
  audioHash :: string
  provider :: string

text \<open>
  \<^verbatim>\<open>initialize\<close> leaves \<^verbatim>\<open>this.client\<close> at \<^verbatim>\<open>null\<close> unless the credentials variable is set,
  the file it names exists and the client's constructor returns. The constructor belongs to
  the cloud library, so it is a parameter; an exception from it is caught and logged.
\<close>

definition STT_initialize ::
  "string option \<Rightarrow> (string \<Rightarrow> bool) \<Rightarrow> (string \<Rightarrow> error + 'c) \<Rightarrow> 'c option" where
  "STT_initialize googleCredentials fileExists SpeechClient =
     (case googleCredentials of
        None \<Rightarrow> None
      | Some keyFilename \<Rightarrow>
          if keyFilename \<noteq> [] \<and> fileExists keyFilename then
            (case SpeechClient keyFilename of Inr client \<Rightarrow> Some client | Inl e \<Rightarrow> None)
          else None)"

definition mockText :: string where
  "mockText = ''This is a mock transcription. Please configure Google Cloud Speech-to-Text for actual transcription. Audio file processed successfully.''"

text \<open>
  \<^verbatim>\<open>calculateAudioHash\<close> reads the file and returns the empty string when that fails: it
  never throws, and is a parameter here.
\<close>

definition transcribeWithFallback :: "(string \<Rightarrow> string) \<Rightarrow> string \<Rightarrow> error + stt_result" where
  "transcribeWithFallback calculateAudioHash audioPath =
     Inr \<lparr> stt_text = mockText, stt_confidence = Num 50,
           audioHash = calculateAudioHash audioPath, provider = ''fallback'' \<rparr>"

text \<open>
  \<^verbatim>\<open>transcribeAudio\<close> chooses the path by the client alone. What the cloud path returns
  depends on what the cloud service answers, so \<open>transcribeWithGoogleCloud\<close> is a
  parameter; nothing below goes through it.
\<close>

definition transcribeAudio ::
  "'c option \<Rightarrow> ('c \<Rightarrow> string \<Rightarrow> error + stt_result) \<Rightarrow> (string \<Rightarrow> string) \<Rightarrow> string
     \<Rightarrow> error + stt_result" where
  "transcribeAudio client transcribeWithGoogleCloud calculateAudioHash audioPath =
     (case client of
        Some c \<Rightarrow> transcribeWithGoogleCloud c audioPath
      | None \<Rightarrow> transcribeWithFallback calculateAudioHash audioPath)"

section \<open>The submission handler\<close>

text \<open>
  \<^verbatim>\<open>POST /api/submitFIR\<close> of \<^verbatim>\<open>backend/server.js\<close>. The five services are parameters: each
  call returns a value or throws. The handler's own effects are the ledger calls it issues,
  logged in order whether or not they succeed, and the removal of the two uploaded files.
\<close>

record ocr_result =
  ocr_text :: string
  ocr_confidence :: jsnum
  imageHash :: string

record firData =
  fd_victimAddress :: string
  fd_ocrText :: string
  fd_sttText :: string
  fd_similarityScore :: jsnum
  fd_verified :: bool
  fd_timestamp :: string
  fd_imageHash :: string
  fd_audioHash :: string

record ipfs_result =
  cid :: string
  url :: string

record create_result =
  firId :: jsnum
  txHash :: string

record services =
  ocrService_extractText :: "string \<Rightarrow> error + ocr_result"
  sttService_transcribeAudio :: "string \<Rightarrow> error + stt_result"
  mlService_calculateSimilarity :: "string \<Rightarrow> string \<Rightarrow> error + jsnum"
  ipfsService_uploadToIPFS :: "firData \<Rightarrow> error + ipfs_result"
  blockchainService_createFIR :: "string \<Rightarrow> jsnum \<Rightarrow> string \<Rightarrow> error + create_result"
  blockchainService_setVerification :: "jsnum \<Rightarrow> bool \<Rightarrow> error + string"

text \<open>
  The environment: \<open>SIMILARITY_THRESHOLD\<close> is what \<^verbatim>\<open>parseInt\<close> makes of the variable
  (\<open>NaN\<close> when it is unset or not a number).
\<close>

record environment =
  SIMILARITY_THRESHOLD :: jsnum
  IPFS_GATEWAY_URL :: "string option"
  NODE_ENV :: "string option"

record request =
  victimAddress :: string
  image :: "string option"
  audio :: "string option"

datatype ledger_call = CreateFIR string jsnum string | SetVerification jsnum bool

record world =
  files :: "string set"
  ledger :: "ledger_call list"

record submit_result =
  res_firId :: jsnum
  res_cid :: string
  res_ipfsUrl :: string
  res_txHash :: string
  res_ocrText :: string
  res_sttText :: string
  res_similarityScore :: jsnum
  res_verified :: bool
  res_timestamp :: string
  res_gatewayUrl :: string

datatype response = Status400 string | Status500 string string | Success submit_result

text \<open>\<^verbatim>\<open>a || b\<close> on numbers: \<open>NaN\<close> and zero are falsy.\<close>

definition js_or :: "jsnum \<Rightarrow> jsnum \<Rightarrow> jsnum" where
  "js_or a b = (if a = NaN \<or> a = Num 0 then b else a)"

definition autoApprovalThreshold :: "environment \<Rightarrow> jsnum" where
  "autoApprovalThreshold env = js_or (SIMILARITY_THRESHOLD env) (Num 75)"

definition gatewayUrlOf :: "environment \<Rightarrow> string \<Rightarrow> string" where
  "gatewayUrlOf env c =
     (case IPFS_GATEWAY_URL env of
        Some u \<Rightarrow> (if u = [] then ''https://ipfs.io/ipfs/'' else u)
      | None \<Rightarrow> ''https://ipfs.io/ipfs/'') @ c"

text \<open>\<^verbatim>\<open>fs.unlink\<close> removes a file that is there and throws for one that is not.\<close>

definition fs_unlink :: "string \<Rightarrow> world \<Rightarrow> (error + unit) \<times> world" where
  "fs_unlink path w =
     (if path \<in> files w then (Inr (), w\<lparr>files := files w - {path}\<rparr>)
      else (Inl (Error ''ENOENT''), w))"

definition issue :: "ledger_call \<Rightarrow> world \<Rightarrow> world" where
  "issue c w = w\<lparr>ledger := ledger w @ [c]\<rparr>"

text \<open>The evidence bundle, the object \<^verbatim>\<open>firData\<close> of the handler.\<close>

definition firData_of ::
  "environment \<Rightarrow> string \<Rightarrow> request \<Rightarrow> ocr_result \<Rightarrow> stt_result \<Rightarrow> jsnum \<Rightarrow> firData" where
  "firData_of env now req ocrResult sttResult similarityScore =
     \<lparr> fd_victimAddress = victimAddress req,
       fd_ocrText = ocr_text ocrResult,
       fd_sttText = stt_text sttResult,
       fd_similarityScore = similarityScore,
       fd_verified = js_ge similarityScore (autoApprovalThreshold env),
       fd_timestamp = now,
       fd_imageHash = imageHash ocrResult,
       fd_audioHash = audioHash sttResult \<rparr>"

text \<open>The body of the \<^verbatim>\<open>try\<close> block: \<open>Inl\<close> is the exception that leaves it.\<close>

definition submitFIR_try ::
  "services \<Rightarrow> environment \<Rightarrow> string \<Rightarrow> request \<Rightarrow> world \<Rightarrow> (error + response) \<times> world" where
  "submitFIR_try svc env now req w =
     (case (image req, audio req) of
        (Some imageFile, Some audioFile) \<Rightarrow>
          (case ocrService_extractText svc imageFile of
             Inl e \<Rightarrow> (Inl e, w)
           | Inr ocrResult \<Rightarrow>
          (case sttService_transcribeAudio svc audioFile of
             Inl e \<Rightarrow> (Inl e, w)
           | Inr sttResult \<Rightarrow>
          (case mlService_calculateSimilarity svc (ocr_text ocrResult) (stt_text sttResult) of
             Inl e \<Rightarrow> (Inl e, w)
           | Inr similarityScore \<Rightarrow>
          (let data = firData_of env now req ocrResult sttResult similarityScore
           in
          (case ipfsService_uploadToIPFS svc data of
             Inl e \<Rightarrow> (Inl e, w)
           | Inr ipfsResult \<Rightarrow>
          (let w1 = issue (CreateFIR (cid ipfsResult) similarityScore (victimAddress req)) w
           in
          (case blockchainService_createFIR svc (cid ipfsResult) similarityScore
                  (victimAddress req) of
             Inl e \<Rightarrow> (Inl e, w1)
           | Inr blockchainResult \<Rightarrow>
          (let (verification, w2) =
                 (if fd_verified data
                  then (blockchainService_setVerification svc (firId blockchainResult) True,
                        issue (SetVerification (firId blockchainResult) True) w1)
                  else (Inr [], w1))
           in
          (case verification of
             Inl e \<Rightarrow> (Inl e, w2)
           | Inr _ \<Rightarrow>
          (case fs_unlink imageFile w2 of
             (Inl e, w3) \<Rightarrow> (Inl e, w3)
           | (Inr _, w3) \<Rightarrow>
          (case fs_unlink audioFile w3 of
             (Inl e, w4) \<Rightarrow> (Inl e, w4)
           | (Inr _, w4) \<Rightarrow>
               (Inr (Success
                  \<lparr> res_firId = firId blockchainResult,
                    res_cid = cid ipfsResult,
                    res_ipfsUrl = url ipfsResult,
                    res_txHash = txHash blockchainResult,
                    res_ocrText = ocr_text ocrResult,
                    res_sttText = stt_text sttResult,
                    res_similarityScore = similarityScore,
                    res_verified = fd_verified data,
                    res_timestamp = fd_timestamp data,
                    res_gatewayUrl = gatewayUrlOf env (cid ipfsResult) \<rparr>), w4))))))))))))
      | _ \<Rightarrow> (Inr (Status400 ''Both image and audio files are required''), w))"

text \<open>
  The \<^verbatim>\<open>catch\<close> block removes the image, then the audio; an exception from either removal
  ends the cleanup and is only logged.
\<close>

definition submitFIR_cleanup :: "request \<Rightarrow> world \<Rightarrow> world" where
  "submitFIR_cleanup req w =
     (case (case image req of Some imageFile \<Rightarrow> fs_unlink imageFile w | None \<Rightarrow> (Inr (), w)) of
        (Inl cleanupError, w1) \<Rightarrow> w1
      | (Inr _, w1) \<Rightarrow>
          (case audio req of Some audioFile \<Rightarrow> snd (fs_unlink audioFile w1) | None \<Rightarrow> w1))"

definition submitFIR ::
  "services \<Rightarrow> environment \<Rightarrow> string \<Rightarrow> request \<Rightarrow> world \<Rightarrow> response \<times> world" where
  "submitFIR svc env now req w =
     (case submitFIR_try svc env now req w of
        (Inr res, w1) \<Rightarrow> (res, w1)
      | (Inl (Error message), w1) \<Rightarrow>
          (Status500 ''Failed to process FIR submission''
             (if NODE_ENV env = Some ''development'' then message else ''Internal server error''),
           submitFIR_cleanup req w1))"

text \<open>The ledger calls one run of the handler issued, in order.\<close>

definition issued :: "world \<Rightarrow> world \<Rightarrow> ledger_call list" where
  "issued w w1 = drop (length (ledger w)) (ledger w1)"

text \<open>
  A concrete deployment for the runs evaluated below: no speech credentials (so the fallback
  transcriber), the default threshold, a scorer that returns the given score, and a storage
  and a ledger client that succeed or throw as told.
\<close>

definition demo_services :: "jsnum \<Rightarrow> bool \<Rightarrow> bool \<Rightarrow> services" where
  "demo_services similarityScore publishes creates =
     \<lparr> ocrService_extractText =
         (\<lambda>path. Inr \<lparr> ocr_text = ''theft of motorcycle'', ocr_confidence = Num 90,
                        imageHash = ''ab12'' \<rparr>),
       sttService_transcribeAudio =
         transcribeAudio (STT_initialize None (\<lambda>path. False) (\<lambda>path. Inr ()))
           (\<lambda>client path. Inl (Error ''unreachable'')) (\<lambda>path. ''cd34''),
       mlService_calculateSimilarity = (\<lambda>ocrText sttText. Inr similarityScore),
       ipfsService_uploadToIPFS =
         (\<lambda>data. if publishes then Inr \<lparr> cid = ''Qm1'', url = ''https://ipfs.io/ipfs/Qm1'' \<rparr>
                  else Inl (Error ''No IPFS client available and Pinata not configured'')),
       blockchainService_createFIR =
         (\<lambda>ipfsCid score victim. if creates then Inr \<lparr> firId = Num 1, txHash = ''0x01'' \<rparr>
                  else Inl (Error ''Transaction failed'')),
       blockchainService_setVerification = (\<lambda>fid verified. Inr ''0x02'') \<rparr>"

definition demo_env :: environment where
  "demo_env = \<lparr> SIMILARITY_THRESHOLD = NaN, IPFS_GATEWAY_URL = None, NODE_ENV = None \<rparr>"

definition demo_request :: request where
  "demo_request =
     \<lparr> victimAddress = ''0x00000000000000000000000000000000000000aa'',
       image = Some ''uploads/image-1.png'', audio = Some ''uploads/audio-1.wav'' \<rparr>"

definition demo_world :: world where
  "demo_world = \<lparr> files = {''uploads/image-1.png'', ''uploads/audio-1.wav''}, ledger = [] \<rparr>"


section \<open>The ledger contract\<close>

text \<open>
  \<^verbatim>\<open>contracts/FIRRegistry.sol\<close>. A call either reverts, which leaves the contract's storage as
  it was, or returns with the new storage. The role table is OpenZeppelin's
  \<^verbatim>\<open>AccessControl\<close>; the three roles the contract uses are an enumeration here.
\<close>

type_synonym address = "160 word"

type_synonym uint256 = "256 word"

datatype role = DEFAULT_ADMIN_ROLE | VICTIM_ROLE | GOV_ROLE

record FIR =
  fir_id :: uint256
  fir_victim :: address
  fir_ipfsCid :: string
  fir_timestamp :: uint256
  fir_verified :: bool
  fir_exists :: bool
  fir_similarityScore :: uint256

datatype event =
  FIRCreated uint256 address string uint256 uint256
| FIRVerified uint256 bool address

record registry =
  firCounter :: uint256
  firs :: "uint256 \<Rightarrow> FIR"
  victimFIRs :: "address \<Rightarrow> uint256 list"
  hasRole :: "role \<Rightarrow> address \<Rightarrow> bool"
  emitted :: "event list"

datatype 'a outcome = Reverted string | Returned 'a registry

definition state_after :: "registry \<Rightarrow> 'a outcome \<Rightarrow> registry" where
  "state_after st out = (case out of Reverted reason \<Rightarrow> st | Returned v st1 \<Rightarrow> st1)"

definition reverted :: "'a outcome \<Rightarrow> bool" where
  "reverted out = (case out of Reverted reason \<Rightarrow> True | Returned v st1 \<Rightarrow> False)"

definition emit :: "event \<Rightarrow> registry \<Rightarrow> registry" where
  "emit e st = st\<lparr>emitted := emitted st @ [e]\<rparr>"

definition zero_FIR :: FIR where
  "zero_FIR = \<lparr> fir_id = 0, fir_victim = 0, fir_ipfsCid = [], fir_timestamp = 0,
                fir_verified = False, fir_exists = False, fir_similarityScore = 0 \<rparr>"

definition constructor :: "address \<Rightarrow> registry" where
  "constructor sender =
     \<lparr> firCounter = 0, firs = (\<lambda>i. zero_FIR), victimFIRs = (\<lambda>a. []),
       hasRole = (\<lambda>r a. (r = DEFAULT_ADMIN_ROLE \<or> r = GOV_ROLE) \<and> a = sender),
       emitted = [] \<rparr>"

definition createFIR ::
  "address \<Rightarrow> uint256 \<Rightarrow> string \<Rightarrow> uint256 \<Rightarrow> registry \<Rightarrow> uint256 outcome" where
  "createFIR sender block_timestamp ipfsCid similarityScore st =
     (if \<not> hasRole st VICTIM_ROLE sender then Reverted ''AccessControl: account is missing role''
      else if \<not> length ipfsCid > 0 then Reverted ''IPFS CID cannot be empty''
      else if \<not> similarityScore \<le> 100 then Reverted ''Similarity score cannot exceed 100''
      else
        (let newId = firCounter st + 1;
             st1 = st\<lparr>firCounter := newId\<rparr>;
             st2 = st1\<lparr>firs := (firs st1)(newId :=
                     \<lparr> fir_id = newId, fir_victim = sender, fir_ipfsCid = ipfsCid,
                       fir_timestamp = block_timestamp, fir_verified = (similarityScore \<ge> 75),
                       fir_exists = True, fir_similarityScore = similarityScore \<rparr>)\<rparr>;
             st3 = st2\<lparr>victimFIRs := (victimFIRs st2)(sender := victimFIRs st2 sender @ [newId])\<rparr>;
             st4 = emit (FIRCreated newId sender ipfsCid block_timestamp similarityScore) st3;
             st5 = (if similarityScore \<ge> 75 then emit (FIRVerified newId True sender) st4 else st4)
         in Returned newId st5))"

definition setVerification :: "address \<Rightarrow> uint256 \<Rightarrow> bool \<Rightarrow> registry \<Rightarrow> unit outcome" where
  "setVerification sender fid verified st =
     (if \<not> hasRole st GOV_ROLE sender then Reverted ''AccessControl: account is missing role''
      else if \<not> fir_exists (firs st fid) then Reverted ''FIR does not exist''
      else
        (let st1 = st\<lparr>firs := (firs st)(fid := (firs st fid)\<lparr>fir_verified := verified\<rparr>)\<rparr>
         in Returned () (emit (FIRVerified fid verified sender) st1)))"

definition grantRole :: "address \<Rightarrow> role \<Rightarrow> address \<Rightarrow> registry \<Rightarrow> unit outcome" where
  "grantRole sender r account st =
     (if \<not> hasRole st DEFAULT_ADMIN_ROLE sender
      then Reverted ''AccessControl: account is missing role''
      else Returned () (st\<lparr>hasRole := (hasRole st)(r := (hasRole st r)(account := True))\<rparr>))"

definition grantVictimRole :: "address \<Rightarrow> address \<Rightarrow> registry \<Rightarrow> unit outcome" where
  "grantVictimRole sender victim st = grantRole sender VICTIM_ROLE victim st"

definition grantGovRole :: "address \<Rightarrow> address \<Rightarrow> registry \<Rightarrow> unit outcome" where
  "grantGovRole sender govStaff st = grantRole sender GOV_ROLE govStaff st"

text \<open>A registry for the concrete calls below: deployed by account 1, with account 2 a victim.\<close>

definition demo_registry :: registry where
  "demo_registry = state_after (constructor 1) (grantVictimRole 1 2 (constructor 1))"

section \<open>The two text cleaners\<close>

text \<open>
  The character classes of the regular expressions, on code units below 256: \<^verbatim>\<open>\s\<close> is
  tab, line feed, vertical tab, form feed, carriage return, space and the no-break space;
  \<^verbatim>\<open>\w\<close> is a letter, a digit or the underscore.
\<close>

definition is_space :: "char \<Rightarrow> bool" where
  "is_space c = (let n = (of_char c :: nat) in (9 \<le> n \<and> n \<le> 13) \<or> n = 32 \<or> n = 160)"


definition is_lower_az :: "char \<Rightarrow> bool" where
  "is_lower_az c = (let n = (of_char c :: nat) in 97 \<le> n \<and> n \<le> 122)"

definition is_sentence_end :: "char \<Rightarrow> bool" where
  "is_sentence_end c = (c \<in> set ''.!?'')"

definition is_punct :: "char \<Rightarrow> bool" where
  "is_punct c = (c \<in> set ''.!?,:;'')"

definition is_kept :: "char \<Rightarrow> bool" where
  "is_kept c = (is_word_unit c \<or> is_space c \<or> c \<in> set ''.,!?;:-()'')"










section \<open>Notions used in the proofs\<close>

text \<open>
  The recurrence of the edit distance, read off the matrix: \<open>lev_cell\<close> is the value the
  loops are shown to store at row \<open>i\<close>, column \<open>j\<close>, and the two invariants say which rows
  of the matrix are complete.
\<close>

fun lev_rec :: "'a list \<Rightarrow> 'a list \<Rightarrow> nat" where
  "lev_rec [] ys = length ys"
| "lev_rec xs [] = length xs"
| "lev_rec (x # xs) (y # ys) =
     (if x = y then lev_rec xs ys
      else min (min (lev_rec xs ys + 1) (lev_rec (x # xs) ys + 1)) (lev_rec xs (y # ys) + 1))"

definition lev_cell :: "'a list \<Rightarrow> 'a list \<Rightarrow> nat \<Rightarrow> nat \<Rightarrow> nat" where
  "lev_cell str1 str2 i j = lev_rec (rev (take i str2)) (rev (take j str1))"

definition lev_inv :: "'a list \<Rightarrow> 'a list \<Rightarrow> nat list list \<Rightarrow> nat \<Rightarrow> nat \<Rightarrow> bool" where
  "lev_inv str1 str2 matrix i j \<longleftrightarrow>
     length matrix = length str2 + 1 \<and>
     (\<forall>k<i. matrix ! k = map (lev_cell str1 str2 k) [0..<length str1 + 1]) \<and>
     matrix ! i = map (lev_cell str1 str2 i) [0..<j] \<and>
     (\<forall>k. i < k \<and> k \<le> length str2 \<longrightarrow> matrix ! k = [k])"

definition lev_rows_inv :: "'a list \<Rightarrow> 'a list \<Rightarrow> nat list list \<Rightarrow> nat \<Rightarrow> bool" where
  "lev_rows_inv str1 str2 matrix i \<longleftrightarrow>
     length matrix = length str2 + 1 \<and>
     (\<forall>k<i. matrix ! k = map (lev_cell str1 str2 k) [0..<length str1 + 1]) \<and>
     (\<forall>k. i \<le> k \<and> k \<le> length str2 \<longrightarrow> matrix ! k = [k])"

text \<open>Term frequencies and the sums of the cosine metric over the joint vocabulary.\<close>

definition tf :: "'a list \<Rightarrow> 'a \<Rightarrow> nat" where
  "tf ws x = length (filter (\<lambda>w. w = x) ws)"

definition dot_tf :: "'a list \<Rightarrow> 'a list \<Rightarrow> nat" where
  "dot_tf ws1 ws2 = (\<Sum>x \<in> set ws1 \<union> set ws2. tf ws1 x * tf ws2 x)"

definition sq_tf :: "'a list \<Rightarrow> 'a list \<Rightarrow> nat" where
  "sq_tf ws1 ws2 = (\<Sum>x \<in> set ws1 \<union> set ws2. tf ws1 x * tf ws1 x)"

text \<open>The Jaccard and cosine metrics as fractions, where they are numbers.\<close>

definition jaccard_fraction :: "'a list \<Rightarrow> 'a list \<Rightarrow> real" where
  "jaccard_fraction ws1 ws2 = real (card (set ws1 \<inter> set ws2)) / real (card (set ws1 \<union> set ws2))"

definition cosine_fraction :: "'a list \<Rightarrow> 'a list \<Rightarrow> real" where
  "cosine_fraction ws1 ws2 =
     (if sq_tf ws1 ws2 = 0 \<or> sq_tf ws2 ws1 = 0 then 0
      else real (dot_tf ws1 ws2) / (sqrt (real (sq_tf ws1 ws2)) * sqrt (real (sq_tf ws2 ws1))))"

text \<open>The shapes a run's ledger calls can take.\<close>

definition auto_calls :: "ledger_call list \<Rightarrow> bool" where
  "auto_calls l =
     (case l of
        [] \<Rightarrow> True
      | [CreateFIR c s v] \<Rightarrow> True
      | [CreateFIR c s v, SetVerification fid True] \<Rightarrow> True
      | _ \<Rightarrow> False)"




section \<open>Properties of the metrics\<close>

subsection \<open>Sets and the Jaccard metric\<close>

lemma Set_of_aux:
  "set (foldl (\<lambda>s x. if x \<in> set s then s else s @ [x]) acc xs) = set acc \<union> set xs
   \<and> (distinct acc \<longrightarrow> distinct (foldl (\<lambda>s x. if x \<in> set s then s else s @ [x]) acc xs))"
  by (induction xs arbitrary: acc) auto

lemma set_Set_of [simp]: "set (Set_of xs) = set xs"
  using Set_of_aux [of "[]" xs] by (simp add: Set_of_def)

lemma distinct_Set_of [simp]: "distinct (Set_of xs)"
  using Set_of_aux [of "[]" xs] by (simp add: Set_of_def)

lemma length_Set_of: "length (Set_of xs) = card (set xs)"
  using distinct_card [OF distinct_Set_of, of xs] by simp

lemma Set_of_Nil [simp]: "Set_of [] = []"
  by (simp add: Set_of_def)

lemma Jaccard_card:
  "calculateJaccardSimilarity words1 words2 =
     js_div (Num (real (card (set words1 \<inter> set words2))))
            (Num (real (card (set words1 \<union> set words2))))"
proof -
  have "set (filter (\<lambda>x. x \<in> set (Set_of words2)) (Set_of words1)) = set words1 \<inter> set words2"
    by auto
  then have "length (Set_of (filter (\<lambda>x. x \<in> set (Set_of words2)) (Set_of words1)))
      = card (set words1 \<inter> set words2)"
    by (simp only: length_Set_of)
  moreover have "length (Set_of (Set_of words1 @ Set_of words2)) = card (set words1 \<union> set words2)"
    by (simp add: length_Set_of)
  ultimately show ?thesis
    unfolding calculateJaccardSimilarity_def Let_def by (simp only:)
qed


subsection \<open>The edit distance\<close>

text \<open>
  The matrix holds, at row \<open>i\<close> and column \<open>j\<close>, the distance between the first \<open>i\<close>
  characters of \<open>str2\<close> and the first \<open>j\<close> characters of \<open>str1\<close>, as the recurrence
  \<open>lev_rec\<close> gives it on the reversed prefixes.
\<close>

declare lev_inner.simps [simp del] lev_outer.simps [simp del]

lemma lev_rec_Nil2 [simp]: "lev_rec xs [] = length xs"
  by (cases xs) auto

lemma lev_cell_0_left: "i \<le> length str2 \<Longrightarrow> lev_cell str1 str2 i 0 = i"
  by (simp add: lev_cell_def)

lemma lev_cell_0_top: "j \<le> length str1 \<Longrightarrow> lev_cell str1 str2 0 j = j"
  by (simp add: lev_cell_def)

lemma lev_cell_step:
  assumes "0 < i" "i \<le> length str2" "0 < j" "j \<le> length str1"
  shows "lev_cell str1 str2 i j =
     (if str2 ! (i - 1) = str1 ! (j - 1) then lev_cell str1 str2 (i - 1) (j - 1)
      else min (min (lev_cell str1 str2 (i - 1) (j - 1) + 1) (lev_cell str1 str2 i (j - 1) + 1))
             (lev_cell str1 str2 (i - 1) j + 1))"
proof -
  obtain i' j' where ij: "i = Suc i'" "j = Suc j'"
    using assms by (metis Suc_pred)
  have a: "rev (take i str2) = str2 ! i' # rev (take i' str2)"
    using assms ij by (simp add: take_Suc_conv_app_nth)
  have b: "rev (take j str1) = str1 ! j' # rev (take j' str1)"
    using assms ij by (simp add: take_Suc_conv_app_nth)
  have c: "i - 1 = i'" "j - 1 = j'" using ij by simp_all
  show ?thesis
    unfolding lev_cell_def c unfolding a b lev_rec.simps ..
qed

lemma lev_inner_inv:
  "lev_inv str1 str2 matrix i j \<Longrightarrow> 0 < i \<Longrightarrow> i \<le> length str2 \<Longrightarrow> 0 < j \<Longrightarrow>
   j \<le> length str1 + 1 \<Longrightarrow>
   lev_inv str1 str2 (lev_inner str1 str2 matrix i j) i (length str1 + 1)"
proof (induction str1 str2 matrix i j rule: lev_inner.induct)
  case (1 str1 str2 matrix i j)
  show ?case
  proof (cases "j \<le> length str1")
    case False
    with "1.prems" have "j = length str1 + 1" by simp
    moreover have "lev_inner str1 str2 matrix i j = matrix"
      using False by (subst lev_inner.simps) simp
    ultimately show ?thesis using "1.prems" by simp
  next
    case True
    let ?v = "(if str2 ! (i - 1) = str1 ! (j - 1) then matrix ! (i - 1) ! (j - 1)
              else min (min (matrix ! (i - 1) ! (j - 1) + 1) (matrix ! i ! (j - 1) + 1))
                     (matrix ! (i - 1) ! j + 1))"
    let ?m = "matrix[i := array_put (matrix ! i) j ?v]"
    from "1.prems" have len: "length matrix = length str2 + 1"
      and prev: "matrix ! (i - 1) = map (lev_cell str1 str2 (i - 1)) [0..<length str1 + 1]"
      and cur: "matrix ! i = map (lev_cell str1 str2 i) [0..<j]"
      by (auto simp: lev_inv_def)
    have c1: "matrix ! (i - 1) ! (j - 1) = lev_cell str1 str2 (i - 1) (j - 1)"
      using prev True "1.prems" by (simp del: upt_Suc)
    have c2: "matrix ! (i - 1) ! j = lev_cell str1 str2 (i - 1) j"
      using prev True "1.prems" by (simp del: upt_Suc)
    have c3: "matrix ! i ! (j - 1) = lev_cell str1 str2 i (j - 1)"
      using cur True "1.prems" by simp
    have v: "?v = lev_cell str1 str2 i j"
      using lev_cell_step [of i str2 j str1] "1.prems" True by (simp only: c1 c2 c3)
    have put: "array_put (matrix ! i) j ?v = map (lev_cell str1 str2 i) [0..<j + 1]"
      unfolding v using cur by (simp add: array_put_def)
    have inv': "lev_inv str1 str2 ?m i (j + 1)"
      using "1.prems" len unfolding lev_inv_def put by auto
    have "lev_inv str1 str2 (lev_inner str1 str2 ?m i (j + 1)) i (length str1 + 1)"
      using "1.IH" [OF True inv'] "1.prems" True by simp
    moreover have "lev_inner str1 str2 matrix i j = lev_inner str1 str2 ?m i (j + 1)"
      using True by (subst lev_inner.simps) simp
    ultimately show ?thesis by simp
  qed
qed

lemma lev_outer_inv:
  "lev_rows_inv str1 str2 matrix i \<Longrightarrow> 0 < i \<Longrightarrow> i \<le> length str2 + 1 \<Longrightarrow>
   lev_rows_inv str1 str2 (lev_outer str1 str2 matrix i) (length str2 + 1)"
proof (induction str1 str2 matrix i rule: lev_outer.induct)
  case (1 str1 str2 matrix i)
  show ?case
  proof (cases "i \<le> length str2")
    case False
    with "1.prems" have "i = length str2 + 1" by simp
    moreover have "lev_outer str1 str2 matrix i = matrix"
      using False by (subst lev_outer.simps) simp
    ultimately show ?thesis using "1.prems" by simp
  next
    case True
    have "lev_inv str1 str2 matrix i 1"
      using "1.prems" True by (auto simp: lev_rows_inv_def lev_inv_def lev_cell_0_left)
    then have "lev_inv str1 str2 (lev_inner str1 str2 matrix i 1) i (length str1 + 1)"
      using lev_inner_inv [of str1 str2 matrix i 1] "1.prems" True by simp
    then have "lev_rows_inv str1 str2 (lev_inner str1 str2 matrix i 1) (i + 1)"
      by (auto simp: lev_rows_inv_def lev_inv_def less_Suc_eq)
    then have "lev_rows_inv str1 str2 (lev_outer str1 str2 (lev_inner str1 str2 matrix i 1) (i + 1))
        (length str2 + 1)"
      using "1.IH" [OF True] True by simp
    moreover have "lev_outer str1 str2 matrix i
        = lev_outer str1 str2 (lev_inner str1 str2 matrix i 1) (i + 1)"
      using True by (subst lev_outer.simps) simp
    ultimately show ?thesis by simp
  qed
qed

lemma first_row: "foldl (\<lambda>row j. array_put row j j) [0] [0..<n + 1] = [0..<n + 1]"
proof (induction n)
  case 0
  show ?case by (simp add: array_put_def)
next
  case (Suc n)
  have "[0..<Suc n + 1] = [0..<n + 1] @ [Suc n]" by simp
  then show ?case using Suc by (simp only: foldl_append) (simp add: array_put_def)
qed

lemma Levenshtein_rec:
  "calculateLevenshteinDistance str1 str2 = lev_rec (rev str2) (rev str1)"
proof -
  let ?rows = "map (\<lambda>i. [i]) [0..<length str2 + 1]"
  let ?m = "?rows[0 := foldl (\<lambda>row j. array_put row j j) (?rows ! 0) [0..<length str1 + 1]]"
  have r0: "?rows ! 0 = [0]" by (simp add: nth_append upt_rec)
  have m0: "?m ! 0 = [0..<length str1 + 1]"
    unfolding r0 first_row by simp
  have "[0..<length str1 + 1] = map (lev_cell str1 str2 0) [0..<length str1 + 1]"
    by (rule nth_equalityI) (auto simp: lev_cell_0_top nth_append less_Suc_eq)
  then have "lev_rows_inv str1 str2 ?m 1"
    unfolding lev_rows_inv_def using m0 by (auto simp: nth_append less_Suc_eq)
  then have "lev_rows_inv str1 str2 (lev_outer str1 str2 ?m 1) (length str2 + 1)"
    by (rule lev_outer_inv) simp_all
  then have "lev_outer str1 str2 ?m 1 ! length str2 ! length str1
      = lev_cell str1 str2 (length str2) (length str1)"
    by (simp add: lev_rows_inv_def nth_append)
  then show ?thesis
    by (simp add: calculateLevenshteinDistance_def Let_def lev_cell_def)
qed

lemma lev_rec_sym: "lev_rec xs ys = lev_rec ys xs"
  by (induction xs ys rule: lev_rec.induct) (auto simp: min.commute min.left_commute)

lemma lev_rec_same: "lev_rec xs xs = 0"
  by (induction xs) auto

lemma lev_rec_disjoint: "set xs \<inter> set ys = {} \<Longrightarrow> lev_rec xs ys = max (length xs) (length ys)"
  by (induction xs ys rule: lev_rec.induct) auto

subsection \<open>The cosine metric\<close>

lemma foldl_add_sum: "foldl (\<lambda>sum val. sum + f val) (a::nat) xs = a + sum_list (map f xs)"
  by (induction xs arbitrary: a) auto

lemma foldl_dot_aux:
  "length v2 = length v1 + k \<Longrightarrow>
   foldl (\<lambda>sum (val, i). sum + val * v2 ! i) (a::nat) (zip v1 [k..<k + length v1])
     = a + sum_list (map (\<lambda>(x, y). x * y) (zip v1 (drop k v2)))"
proof (induction v1 arbitrary: a k)
  case Nil
  show ?case by simp
next
  case (Cons x v1)
  have u: "[k..<k + length (x # v1)] = k # [Suc k..<Suc k + length v1]"
    by (simp add: upt_rec)
  have d: "drop k v2 = v2 ! k # drop (Suc k) v2"
    using Cons.prems by (simp add: Cons_nth_drop_Suc)
  show ?case
    unfolding u d using Cons.IH [of "Suc k" "a + x * v2 ! k"] Cons.prems
    by (simp del: upt_Suc)
qed

lemma foldl_dot:
  "length v2 = length v1 \<Longrightarrow>
   foldl (\<lambda>sum (val, i). sum + val * v2 ! i) (0::nat) (zip v1 [0..<length v1])
     = sum_list (map (\<lambda>(x, y). x * y) (zip v1 v2))"
  using foldl_dot_aux [of v2 v1 0 0] by simp

lemma dot_vectors:
  "foldl (\<lambda>sum (val, i). sum + val * map g ws ! i) (0::nat) (zip (map f ws) [0..<length (map f ws)])
     = sum_list (map (\<lambda>w. f w * g w) ws)"
proof -
  have "zip (map f ws) (map g ws) = map (\<lambda>w. (f w, g w)) ws"
    by (induction ws) auto
  then show ?thesis
    using foldl_dot [of "map g ws" "map f ws"] by (simp add: comp_def)
qed

lemma sum_list_Set_of: "sum_list (map h (Set_of ws)) = (\<Sum>x \<in> set ws. h x)"
  using sum_list_distinct_conv_sum_set [OF distinct_Set_of, of h ws] by simp

lemma Cosine_sums:
  "calculateCosineSimilarity words1 words2 =
     (if sq_tf words1 words2 = 0 \<or> sq_tf words2 words1 = 0 then Num 0
      else Num (real (dot_tf words1 words2)
             / (sqrt (real (sq_tf words1 words2)) * sqrt (real (sq_tf words2 words1)))))"
proof -
  let ?all = "Set_of (words1 @ words2)"
  let ?v1 = "map (\<lambda>word. length (filter (\<lambda>w. w = word) words1)) ?all"
  let ?v2 = "map (\<lambda>word. length (filter (\<lambda>w. w = word) words2)) ?all"
  have d: "foldl (\<lambda>sum (val, i). sum + val * ?v2 ! i) 0 (zip ?v1 [0..<length ?v1])
      = dot_tf words1 words2"
    unfolding dot_vectors sum_list_Set_of dot_tf_def tf_def by simp
  have m1: "foldl (\<lambda>sum val. sum + val * val) 0 ?v1 = sq_tf words1 words2"
    unfolding foldl_add_sum by (simp add: comp_def sum_list_Set_of sq_tf_def tf_def)
  have m2: "foldl (\<lambda>sum val. sum + val * val) 0 ?v2 = sq_tf words2 words1"
    unfolding foldl_add_sum by (simp add: comp_def sum_list_Set_of sq_tf_def tf_def Un_commute)
  show ?thesis
    unfolding calculateCosineSimilarity_def Let_def d m1 m2 by simp
qed

subsection \<open>The ensemble\<close>

lemma Jaccard_sym: "calculateJaccardSimilarity ws1 ws2 = calculateJaccardSimilarity ws2 ws1"
  by (simp only: Jaccard_card Int_commute Un_commute)

lemma dot_tf_sym: "dot_tf ws1 ws2 = dot_tf ws2 ws1"
  by (simp add: dot_tf_def Un_commute mult.commute)

lemma Cosine_sym: "calculateCosineSimilarity ws1 ws2 = calculateCosineSimilarity ws2 ws1"
  unfolding Cosine_sums dot_tf_sym [of ws1 ws2] by (simp add: mult.commute disj_commute)

lemma Levenshtein_sym: "calculateLevenshteinDistance str1 str2 = calculateLevenshteinDistance str2 str1"
  unfolding Levenshtein_rec by (rule lev_rec_sym)

lemma length_findCommonWords:
  "length (findCommonWords ws1 ws2) = card (set ws1 \<inter> set ws2)"
proof -
  have "distinct (filter (\<lambda>word. word \<in> set (Set_of ws2)) (Set_of ws1))"
    by simp
  then have "length (filter (\<lambda>word. word \<in> set (Set_of ws2)) (Set_of ws1))
      = card (set (filter (\<lambda>word. word \<in> set (Set_of ws2)) (Set_of ws1)))"
    by (rule distinct_card [symmetric])
  also have "set (filter (\<lambda>word. word \<in> set (Set_of ws2)) (Set_of ws1)) = set ws1 \<inter> set ws2"
    by auto
  finally show ?thesis by (simp add: findCommonWords_def Let_def)
qed

lemma Jaccard_empty: "calculateJaccardSimilarity [] [] = NaN"
  by (simp add: Jaccard_card)

lemma Cosine_empty: "calculateCosineSimilarity [] [] = Num 0"
  by (simp add: Cosine_sums sq_tf_def)

lemma score_NaN:
  "calculateJaccardSimilarity (removeStopWords (tokenize (toLowerCase a)))
     (removeStopWords (tokenize (toLowerCase b))) = NaN \<Longrightarrow>
   score (calculateSimilarityFallback tokenize a b) = NaN"
  by (simp add: calculateSimilarityFallback_def Let_def)

lemma tf_pos: "x \<in> set ws \<Longrightarrow> 0 < tf ws x"
  by (induction ws) (auto simp: tf_def)

lemma sq_tf_pos: "ws1 \<noteq> [] \<Longrightarrow> 0 < sq_tf ws1 ws2"
proof -
  assume "ws1 \<noteq> []"
  then obtain x where x: "x \<in> set ws1" by (cases ws1) auto
  then have "0 < tf ws1 x * tf ws1 x" using tf_pos [OF x] by simp
  moreover have "tf ws1 x * tf ws1 x \<le> sq_tf ws1 ws2"
    unfolding sq_tf_def using x
    by (intro member_le_sum) auto
  ultimately show ?thesis by linarith
qed

lemma Jaccard_same: "ws \<noteq> [] \<Longrightarrow> calculateJaccardSimilarity ws ws = Num 1"
  by (simp add: Jaccard_card card_gt_0_iff)

lemma Cosine_same: "ws \<noteq> [] \<Longrightarrow> calculateCosineSimilarity ws ws = Num 1"
proof -
  assume ne: "ws \<noteq> []"
  have d: "dot_tf ws ws = sq_tf ws ws" by (simp add: dot_tf_def sq_tf_def)
  show ?thesis
    unfolding Cosine_sums d using sq_tf_pos [OF ne, of ws] by simp
qed

lemma Levenshtein_same: "calculateLevenshteinDistance str str = 0"
  by (simp add: Levenshtein_rec lev_rec_same)

text \<open>Two copies of a text with at least one token left score 100.\<close>

lemma fallback_same:
  "removeStopWords (tokenize (toLowerCase a)) \<noteq> [] \<Longrightarrow>
   score (calculateSimilarityFallback tokenize a a) = Num 100"
  by (simp add: calculateSimilarityFallback_def Let_def Jaccard_same Cosine_same
      Levenshtein_same js_sub_def)

lemma Jaccard_disjoint:
  "set ws1 \<inter> set ws2 = {} \<Longrightarrow> ws1 \<noteq> [] \<or> ws2 \<noteq> [] \<Longrightarrow>
   calculateJaccardSimilarity ws1 ws2 = Num 0"
  by (auto simp add: Jaccard_card)

lemma tf_zero: "x \<notin> set ws \<Longrightarrow> tf ws x = 0"
  by (induction ws) (auto simp: tf_def)

lemma Cosine_disjoint:
  "set ws1 \<inter> set ws2 = {} \<Longrightarrow> calculateCosineSimilarity ws1 ws2 = Num 0"
proof -
  assume dis: "set ws1 \<inter> set ws2 = {}"
  have "tf ws1 x * tf ws2 x = 0" for x
  proof (cases "x \<in> set ws1")
    case True
    then have "x \<notin> set ws2" using dis by auto
    then show ?thesis by (simp add: tf_zero)
  next
    case False
    then show ?thesis by (simp add: tf_zero)
  qed
  then have "dot_tf ws1 ws2 = 0" by (simp add: dot_tf_def)
  then show ?thesis by (simp add: Cosine_sums)
qed

lemma Levenshtein_disjoint:
  "set str1 \<inter> set str2 = {} \<Longrightarrow>
   calculateLevenshteinDistance str1 str2 = max (length str1) (length str2)"
  using lev_rec_disjoint [of "rev str2" "rev str1"] by (simp add: Levenshtein_rec Int_commute max.commute)

lemma round_fifth_bounds:
  fixes x :: real
  assumes "0 \<le> x" "x \<le> 100"
  shows "0 \<le> \<lfloor>x / 100 * 20 + 1 / 2\<rfloor>" and "\<lfloor>x / 100 * 20 + 1 / 2\<rfloor> \<le> 100"
proof -
  show "0 \<le> \<lfloor>x / 100 * 20 + 1 / 2\<rfloor>" using assms by simp
  have "x / 100 * 20 + 1 / 2 < 101" using assms by simp
  then show "\<lfloor>x / 100 * 20 + 1 / 2\<rfloor> \<le> 100" by (simp add: floor_le_iff)
qed

lemma fallback_disjoint:
  assumes "set (removeStopWords (tokenize (toLowerCase a)))
             \<inter> set (removeStopWords (tokenize (toLowerCase b))) = {}"
    and "removeStopWords (tokenize (toLowerCase a)) \<noteq> []
           \<or> removeStopWords (tokenize (toLowerCase b)) \<noteq> []"
    and "set a \<inter> set b = {}"
  shows "score (calculateSimilarityFallback tokenize a b)
     = Num (of_int \<lfloor>max 0 (100 - real (max (length a) (length b))) / 100 * 20 + 1 / 2\<rfloor>)"
proof -
  let ?x = "max 0 (100 - real (max (length a) (length b)))"
  have "0 \<le> ?x" "?x \<le> 100" by simp_all
  then have "0 \<le> \<lfloor>?x / 100 * 20 + 1 / 2\<rfloor>" "\<lfloor>?x / 100 * 20 + 1 / 2\<rfloor> \<le> 100"
    by (rule round_fifth_bounds)+
  then show ?thesis
    using assms
    by (simp add: calculateSimilarityFallback_def Let_def Jaccard_disjoint Cosine_disjoint
      Levenshtein_disjoint js_sub_def)
qed

lemma fifth_small: "(x::real) \<le> 2 \<Longrightarrow> x / 100 * 20 + 1 / 2 < 1"
  by simp

lemma fifth_large: "3 \<le> (x::real) \<Longrightarrow> 1 \<le> x / 100 * 20 + 1 / 2"
  by simp

lemma round_fifth_zero:
  fixes d :: nat
  shows "\<lfloor>max 0 (100 - real d) / 100 * 20 + 1 / 2\<rfloor> = 0 \<longleftrightarrow> 98 \<le> d"
proof (cases "98 \<le> d")
  case True
  then have "98 \<le> real d" by simp
  then have "max 0 (100 - real d) \<le> 2" by simp
  then have "max 0 (100 - real d) / 100 * 20 + 1 / 2 < 1" by (rule fifth_small)
  moreover have "0 \<le> max 0 (100 - real d) / 100 * 20 + 1 / 2" by simp
  ultimately have "\<lfloor>max 0 (100 - real d) / 100 * 20 + 1 / 2\<rfloor> = 0"
    by (subst floor_eq_iff) (simp only: of_int_0 add_0)
  with True show ?thesis by blast
next
  case False
  then have "d \<le> 97" by simp
  then have "real d \<le> 97" by simp
  then have "3 \<le> max 0 (100 - real d)" by simp
  then have "1 \<le> max 0 (100 - real d) / 100 * 20 + 1 / 2" by (rule fifth_large)
  then have "1 \<le> \<lfloor>max 0 (100 - real d) / 100 * 20 + 1 / 2\<rfloor>"
    by (subst le_floor_iff) (simp only: of_int_1)
  then have "\<lfloor>max 0 (100 - real d) / 100 * 20 + 1 / 2\<rfloor> \<noteq> 0"
    by linarith
  with False show ?thesis by blast
qed

lemma sum_squares_product:
  fixes f g :: "'a \<Rightarrow> real"
  assumes "finite U"
  shows "(\<Sum>x\<in>U. f x * g x)\<^sup>2 \<le> (\<Sum>x\<in>U. (f x)\<^sup>2) * (\<Sum>x\<in>U. (g x)\<^sup>2)"
proof -
  let ?A = "\<Sum>x\<in>U. (f x)\<^sup>2" and ?B = "\<Sum>x\<in>U. (g x)\<^sup>2" and ?C = "\<Sum>x\<in>U. f x * g x"
  have quad: "0 \<le> ?A * t\<^sup>2 - 2 * ?C * t + ?B" for t
  proof -
    have "0 \<le> (\<Sum>x\<in>U. (f x * t - g x)\<^sup>2)" by (intro sum_nonneg) simp
    also have "(\<Sum>x\<in>U. (f x * t - g x)\<^sup>2)
        = (\<Sum>x\<in>U. (f x)\<^sup>2 * t\<^sup>2 - 2 * (f x * g x) * t + (g x)\<^sup>2)"
      by (intro sum.cong refl) (simp add: power2_eq_square algebra_simps)
    also have "\<dots> = ?A * t\<^sup>2 - 2 * ?C * t + ?B"
      by (simp add: sum.distrib sum_subtractf sum_distrib_left sum_distrib_right algebra_simps)
    finally show ?thesis .
  qed
  show ?thesis
  proof (cases "?A = 0")
    case True
    then have "\<forall>x\<in>U. (f x)\<^sup>2 = 0" using assms by (simp add: sum_nonneg_eq_0_iff)
    then have "?C = 0" by simp
    then show ?thesis using True by simp
  next
    case False
    have "0 \<le> ?A" by (intro sum_nonneg) simp
    then have pos: "0 < ?A" using False by simp
    have "0 \<le> ?A * (?C / ?A)\<^sup>2 - 2 * ?C * (?C / ?A) + ?B" by (rule quad)
    also have "?A * (?C / ?A)\<^sup>2 - 2 * ?C * (?C / ?A) + ?B = ?B - ?C\<^sup>2 / ?A"
      using pos by (simp add: power2_eq_square field_simps)
    finally have "?C\<^sup>2 / ?A \<le> ?B" by simp
    then show ?thesis using pos by (simp add: field_simps)
  qed
qed


lemma Jaccard_fraction:
  assumes "ws1 \<noteq> [] \<or> ws2 \<noteq> []"
  shows "calculateJaccardSimilarity ws1 ws2 = Num (jaccard_fraction ws1 ws2)"
proof -
  have "set ws1 \<union> set ws2 \<noteq> {}" using assms by auto
  then have "real (card (set ws1 \<union> set ws2)) \<noteq> 0" by simp
  then show ?thesis unfolding Jaccard_card jaccard_fraction_def by (simp only: js_div.simps if_False)
qed

lemma jaccard_fraction_range: "0 \<le> jaccard_fraction ws1 ws2 \<and> jaccard_fraction ws1 ws2 \<le> 1"
proof -
  have "card (set ws1 \<inter> set ws2) \<le> card (set ws1 \<union> set ws2)"
    by (intro card_mono) auto
  then have le: "real (card (set ws1 \<inter> set ws2)) \<le> real (card (set ws1 \<union> set ws2))"
    by simp
  show ?thesis
  proof (cases "card (set ws1 \<union> set ws2) = 0")
    case True
    then show ?thesis by (simp add: jaccard_fraction_def)
  next
    case False
    then have "0 < real (card (set ws1 \<union> set ws2))"
      by (metis gr0I of_nat_0_less_iff)
    then show ?thesis using le unfolding jaccard_fraction_def by (simp add: divide_le_eq_1)
  qed
qed

lemma Cosine_fraction: "calculateCosineSimilarity ws1 ws2 = Num (cosine_fraction ws1 ws2)"
  by (simp add: Cosine_sums cosine_fraction_def)

lemma dot_tf_bound:
  "real (dot_tf ws1 ws2) \<le> sqrt (real (sq_tf ws1 ws2)) * sqrt (real (sq_tf ws2 ws1))"
proof -
  let ?U = "set ws1 \<union> set ws2"
  have "(\<Sum>x\<in>?U. real (tf ws1 x) * real (tf ws2 x))\<^sup>2
      \<le> (\<Sum>x\<in>?U. (real (tf ws1 x))\<^sup>2) * (\<Sum>x\<in>?U. (real (tf ws2 x))\<^sup>2)"
    by (rule sum_squares_product) simp
  then have "(real (dot_tf ws1 ws2))\<^sup>2 \<le> real (sq_tf ws1 ws2) * real (sq_tf ws2 ws1)"
    by (simp add: dot_tf_def sq_tf_def power2_eq_square Un_commute)
  then have "sqrt ((real (dot_tf ws1 ws2))\<^sup>2) \<le> sqrt (real (sq_tf ws1 ws2) * real (sq_tf ws2 ws1))"
    by (rule real_sqrt_le_mono)
  then show ?thesis by (simp add: real_sqrt_mult)
qed

lemma cosine_fraction_range: "0 \<le> cosine_fraction ws1 ws2 \<and> cosine_fraction ws1 ws2 \<le> 1"
proof (cases "sq_tf ws1 ws2 = 0 \<or> sq_tf ws2 ws1 = 0")
  case True
  then show ?thesis by (auto simp: cosine_fraction_def)
next
  case False
  then have "0 < sqrt (real (sq_tf ws1 ws2)) * sqrt (real (sq_tf ws2 ws1))" by simp
  then show ?thesis
    using False dot_tf_bound [of ws1 ws2] by (simp add: cosine_fraction_def divide_le_eq_1)
qed

lemma round_total_bounds:
  fixes j c x :: real
  assumes "0 \<le> j" "j \<le> 1" "0 \<le> c" "c \<le> 1" "0 \<le> x" "x \<le> 100"
  shows "0 \<le> \<lfloor>j * 40 + c * 40 + x / 100 * 20 + 1 / 2\<rfloor>"
    and "\<lfloor>j * 40 + c * 40 + x / 100 * 20 + 1 / 2\<rfloor> \<le> 100"
proof -
  have "0 \<le> j * 40 + c * 40 + x / 100 * 20 + 1 / 2" using assms by simp
  then show "0 \<le> \<lfloor>j * 40 + c * 40 + x / 100 * 20 + 1 / 2\<rfloor>" by simp
  have "j * 40 + c * 40 + x / 100 * 20 + 1 / 2 < 101" using assms by simp
  then show "\<lfloor>j * 40 + c * 40 + x / 100 * 20 + 1 / 2\<rfloor> \<le> 100" by (simp add: floor_le_iff)
qed

text \<open>
  With at least one token left in either text, the score is the rounded weighted sum of
  the three metrics, an integer from 0 to 100: the clamp changes nothing. The sum is the
  exact one. The program adds doubles, so where the exact sum lies on a rounding boundary
  (a fractional part of one half) its sum can fall just short of it and round to the
  integer below; likewise its cosine can exceed 1 by one unit in the last place. The two
  range lemmas and this formula are therefore statements about the exact sum; none of the
  claims below rests on them.
\<close>

lemma fallback_formula:
  assumes "removeStopWords (tokenize (toLowerCase a)) \<noteq> []
           \<or> removeStopWords (tokenize (toLowerCase b)) \<noteq> []"
  shows "score (calculateSimilarityFallback tokenize a b)
     = Num (of_int \<lfloor>jaccard_fraction (removeStopWords (tokenize (toLowerCase a)))
                        (removeStopWords (tokenize (toLowerCase b))) * 40
                   + cosine_fraction (removeStopWords (tokenize (toLowerCase a)))
                        (removeStopWords (tokenize (toLowerCase b))) * 40
                   + max 0 (100 - real (calculateLevenshteinDistance a b)) / 100 * 20
                   + 1 / 2\<rfloor>)"
    and "0 \<le> \<lfloor>jaccard_fraction (removeStopWords (tokenize (toLowerCase a)))
                        (removeStopWords (tokenize (toLowerCase b))) * 40
                   + cosine_fraction (removeStopWords (tokenize (toLowerCase a)))
                        (removeStopWords (tokenize (toLowerCase b))) * 40
                   + max 0 (100 - real (calculateLevenshteinDistance a b)) / 100 * 20
                   + 1 / 2\<rfloor>"
    and "\<lfloor>jaccard_fraction (removeStopWords (tokenize (toLowerCase a)))
                        (removeStopWords (tokenize (toLowerCase b))) * 40
                   + cosine_fraction (removeStopWords (tokenize (toLowerCase a)))
                        (removeStopWords (tokenize (toLowerCase b))) * 40
                   + max 0 (100 - real (calculateLevenshteinDistance a b)) / 100 * 20
                   + 1 / 2\<rfloor> \<le> 100"
proof -
  let ?w1 = "removeStopWords (tokenize (toLowerCase a))"
  let ?w2 = "removeStopWords (tokenize (toLowerCase b))"
  let ?x = "max 0 (100 - real (calculateLevenshteinDistance a b))"
  let ?r = "\<lfloor>jaccard_fraction ?w1 ?w2 * 40 + cosine_fraction ?w1 ?w2 * 40 + ?x / 100 * 20 + 1 / 2\<rfloor>"
  have x: "0 \<le> ?x" "?x \<le> 100" by simp_all
  show lo: "0 \<le> ?r"
    using jaccard_fraction_range [of ?w1 ?w2] cosine_fraction_range [of ?w1 ?w2] x
    by (intro round_total_bounds(1)) auto
  show hi: "?r \<le> 100"
    using jaccard_fraction_range [of ?w1 ?w2] cosine_fraction_range [of ?w1 ?w2] x
    by (intro round_total_bounds(2)) auto
  show "score (calculateSimilarityFallback tokenize a b) = Num (of_int ?r)"
    using lo hi
    by (simp add: calculateSimilarityFallback_def Let_def Jaccard_fraction [OF assms]
        Cosine_fraction js_sub_def)
qed

lemma WordTokenizer_abc: "removeStopWords (WordTokenizer_tokenize (toLowerCase ''abc'')) = [''abc'']"
  by code_simp

lemma WordTokenizer_xyz: "removeStopWords (WordTokenizer_tokenize (toLowerCase ''xyz'')) = [''xyz'']"
  by code_simp

lemma WordTokenizer_abcd: "removeStopWords (WordTokenizer_tokenize (toLowerCase ''abcd'')) = [''abcd'']"
  by code_simp

lemma WordTokenizer_the: "removeStopWords (WordTokenizer_tokenize (toLowerCase ''the'')) = []"
  by code_simp

lemma WordTokenizer_It_is: "removeStopWords (WordTokenizer_tokenize (toLowerCase ''It is'')) = []"
  by code_simp

lemma WordTokenizer_empty: "removeStopWords (WordTokenizer_tokenize (toLowerCase [])) = []"
  by code_simp

section \<open>The claims about the local ensemble\<close>

text \<open>
  Claim C10. When neither text has a token that survives the stop-word list and the length
  filter, the Jaccard metric divides the size of the empty intersection by the size of the
  empty union, which is \<open>NaN\<close>, and the score of the ensemble is \<open>NaN\<close>; the cosine metric
  has a guard for this case and returns 0.
\<close>

theorem C10_no_surviving_token_scores_NaN:
  assumes "removeStopWords (tokenize (toLowerCase ocrText)) = []"
    and "removeStopWords (tokenize (toLowerCase sttText)) = []"
  shows "calculateJaccardSimilarity (removeStopWords (tokenize (toLowerCase ocrText)))
           (removeStopWords (tokenize (toLowerCase sttText))) = js_div (Num 0) (Num 0)
       \<and> js_div (Num 0) (Num 0) = NaN
       \<and> calculateCosineSimilarity (removeStopWords (tokenize (toLowerCase ocrText)))
           (removeStopWords (tokenize (toLowerCase sttText))) = Num 0
       \<and> score (calculateSimilarityFallback tokenize ocrText sttText) = NaN"
  using assms score_NaN [of tokenize ocrText sttText]
  by (simp add: Jaccard_empty Cosine_empty)

theorem C10_witness:
  "removeStopWords (WordTokenizer_tokenize (toLowerCase ''It is'')) = []
   \<and> removeStopWords (WordTokenizer_tokenize (toLowerCase ''the'')) = []
   \<and> calculateCosineSimilarity (removeStopWords (WordTokenizer_tokenize (toLowerCase ''It is'')))
           (removeStopWords (WordTokenizer_tokenize (toLowerCase ''the''))) = Num 0
   \<and> score (calculateSimilarityFallback WordTokenizer_tokenize ''It is'' ''the'') = NaN"
  using C10_no_surviving_token_scores_NaN [OF WordTokenizer_It_is WordTokenizer_the]
    WordTokenizer_It_is WordTokenizer_the
  by simp

text \<open>
  Claim C5. The result of the ensemble for \<open>(a, b)\<close> is the result for \<open>(b, a)\<close>: the score
  and every metric reported with it. The two scores are both \<open>NaN\<close> or equal numbers.
\<close>

theorem C5_fallback_symmetric:
  "calculateSimilarityFallback tokenize a b = calculateSimilarityFallback tokenize b a
   \<and> (score (calculateSimilarityFallback tokenize a b) = NaN
          \<and> score (calculateSimilarityFallback tokenize b a) = NaN
        \<or> js_eq (score (calculateSimilarityFallback tokenize a b))
             (score (calculateSimilarityFallback tokenize b a)))"
proof -
  have "calculateSimilarityFallback tokenize a b = calculateSimilarityFallback tokenize b a"
    unfolding calculateSimilarityFallback_def Let_def length_findCommonWords
    by (simp only: Jaccard_sym [of "removeStopWords (tokenize (toLowerCase a))"]
        Cosine_sym [of "removeStopWords (tokenize (toLowerCase a))"]
        Levenshtein_sym [of a b] Int_commute)
  then show ?thesis
    by (cases "score (calculateSimilarityFallback tokenize b a)") simp_all
qed

text \<open>
  Claim C3, as the code has it. For two texts with disjoint vocabularies and no character in
  common, at least one of which has a token that survives the filter, the Jaccard and cosine
  terms are 0 and the distance is the length \<open>d\<close> of the longer text, so the score is
  \<open>round(20 * max(0, 100 - d) / 100)\<close>: the distance is not normalised by the length of
  the texts, and the score is 0 exactly when the longer text has 98 characters or more.
\<close>

theorem C3_disjoint_texts_score:
  assumes "set (removeStopWords (tokenize (toLowerCase a)))
             \<inter> set (removeStopWords (tokenize (toLowerCase b))) = {}"
    and "removeStopWords (tokenize (toLowerCase a)) \<noteq> []
           \<or> removeStopWords (tokenize (toLowerCase b)) \<noteq> []"
    and "set a \<inter> set b = {}"
  shows "calculateLevenshteinDistance a b = max (length a) (length b)
       \<and> score (calculateSimilarityFallback tokenize a b)
           = Math_round (Num (max 0 (100 - real (max (length a) (length b))) / 100 * 20))
       \<and> (score (calculateSimilarityFallback tokenize a b) = Num 0
            \<longleftrightarrow> 98 \<le> max (length a) (length b))"
  using fallback_disjoint [OF assms] round_fifth_zero [of "max (length a) (length b)"]
    Levenshtein_disjoint [OF assms(3)]
  by simp

theorem C3_witness:
  "set (removeStopWords (WordTokenizer_tokenize (toLowerCase ''abcd'')))
     \<inter> set (removeStopWords (WordTokenizer_tokenize (toLowerCase ''xyz''))) = {}
   \<and> set ''abcd'' \<inter> set ''xyz'' = {}
   \<and> calculateLevenshteinDistance ''abcd'' ''xyz'' = 4
   \<and> score (calculateSimilarityFallback WordTokenizer_tokenize ''abcd'' ''xyz'') = Num 19"
proof -
  have v: "set (removeStopWords (WordTokenizer_tokenize (toLowerCase ''abcd'')))
     \<inter> set (removeStopWords (WordTokenizer_tokenize (toLowerCase ''xyz''))) = {}"
    by (simp add: WordTokenizer_abcd WordTokenizer_xyz)
  have t: "removeStopWords (WordTokenizer_tokenize (toLowerCase ''abcd'')) \<noteq> []
     \<or> removeStopWords (WordTokenizer_tokenize (toLowerCase ''xyz'')) \<noteq> []"
    by (simp add: WordTokenizer_abcd)
  have c: "set ''abcd'' \<inter> set ''xyz'' = {}" by simp
  show ?thesis
    using C3_disjoint_texts_score [OF v t c] v c by simp
qed

theorem C3_counterexample:
  "set (removeStopWords (WordTokenizer_tokenize (toLowerCase ''abc'')))
     \<inter> set (removeStopWords (WordTokenizer_tokenize (toLowerCase ''xyz''))) = {}
   \<and> set ''abc'' \<inter> set ''xyz'' = {}
   \<and> score (calculateSimilarityFallback WordTokenizer_tokenize ''abc'' ''xyz'') = Num 19
   \<and> score (calculateSimilarityFallback WordTokenizer_tokenize ''abc'' ''xyz'') \<noteq> Num 0"
proof -
  have v: "set (removeStopWords (WordTokenizer_tokenize (toLowerCase ''abc'')))
     \<inter> set (removeStopWords (WordTokenizer_tokenize (toLowerCase ''xyz''))) = {}"
    by (simp add: WordTokenizer_abc WordTokenizer_xyz)
  have t: "removeStopWords (WordTokenizer_tokenize (toLowerCase ''abc'')) \<noteq> []
     \<or> removeStopWords (WordTokenizer_tokenize (toLowerCase ''xyz'')) \<noteq> []"
    by (simp add: WordTokenizer_abc)
  have c: "set ''abc'' \<inter> set ''xyz'' = {}" by simp
  show ?thesis
    using fallback_disjoint [OF v t c] v c by simp
qed

text \<open>
  Claim C4, at the input where the code departs from it: two copies of the text \<open>the\<close>,
  whose only token is a stop word, score \<open>NaN\<close> and not 100.
\<close>

theorem C4_identical_stop_words_score_NaN:
  "score (calculateSimilarityFallback WordTokenizer_tokenize ''the'' ''the'') = NaN
   \<and> score (calculateSimilarityFallback WordTokenizer_tokenize ''the'' ''the'') \<noteq> Num 100"
  using score_NaN [of WordTokenizer_tokenize "''the''" "''the''"]
  by (simp add: WordTokenizer_the Jaccard_empty)

text \<open>
  Claim C1, at the input where the code departs from it: for two empty texts the Jaccard
  metric is \<open>NaN\<close>, not a fraction between 0 and 1, and so is the score, which the clamp
  leaves outside the range from 0 to 100.
\<close>

theorem C1_empty_texts_score_NaN:
  "calculateJaccardSimilarity (removeStopWords (WordTokenizer_tokenize (toLowerCase [])))
     (removeStopWords (WordTokenizer_tokenize (toLowerCase []))) = NaN
   \<and> score (calculateSimilarityFallback WordTokenizer_tokenize [] []) = NaN
   \<and> \<not> js_ge (score (calculateSimilarityFallback WordTokenizer_tokenize [] [])) (Num 0)"
  using score_NaN [of WordTokenizer_tokenize "[]" "[]"]
  by (simp add: WordTokenizer_empty Jaccard_empty)

section \<open>Properties of the submission handler\<close>

lemma firData_of_simps [simp]:
  "fd_verified (firData_of env now req ocrResult sttResult similarityScore)
     = js_ge similarityScore (autoApprovalThreshold env)"
  "fd_timestamp (firData_of env now req ocrResult sttResult similarityScore) = now"
  "fd_sttText (firData_of env now req ocrResult sttResult similarityScore) = stt_text sttResult"
  by (simp_all add: firData_of_def)

lemma ledger_cleanup [simp]: "ledger (submitFIR_cleanup req w) = ledger w"
  by (auto simp: submitFIR_cleanup_def fs_unlink_def split: option.splits prod.splits sum.splits if_splits)

lemma try_ledger:
  "\<exists>l. ledger (snd (submitFIR_try svc env now req w)) = ledger w @ l \<and> auto_calls l"
  unfolding submitFIR_try_def Let_def issue_def fs_unlink_def auto_calls_def
  by (auto split: option.splits sum.splits prod.splits if_splits)

lemma submitFIR_ledger:
  "\<exists>l. ledger (snd (submitFIR svc env now req w)) = ledger w @ l \<and> auto_calls l"
proof -
  obtain l where l: "ledger (snd (submitFIR_try svc env now req w)) = ledger w @ l" "auto_calls l"
    using try_ledger by blast
  have "ledger (snd (submitFIR svc env now req w)) = ledger (snd (submitFIR_try svc env now req w))"
    by (auto simp: submitFIR_def split: prod.splits sum.splits error.splits)
  with l show ?thesis by auto
qed

lemma auto_calls_no_False: "auto_calls l \<Longrightarrow> SetVerification fid False \<notin> set l"
  by (auto simp: auto_calls_def split: list.splits ledger_call.splits bool.splits)

lemma issued_never_False:
  "SetVerification fid False \<notin> set (issued w (snd (submitFIR svc env now req w)))"
proof -
  obtain l where l: "ledger (snd (submitFIR svc env now req w)) = ledger w @ l" "auto_calls l"
    using submitFIR_ledger by blast
  then show ?thesis by (simp add: issued_def auto_calls_no_False)
qed

lemma try_success:
  assumes "submitFIR_try svc env now req w = (Inr (Success body), w1)"
  shows "ledger w1 = ledger w @
           CreateFIR (res_cid body) (res_similarityScore body) (victimAddress req)
           # (if js_ge (res_similarityScore body) (autoApprovalThreshold env)
              then [SetVerification (res_firId body) True] else [])"
    and "res_verified body = js_ge (res_similarityScore body) (autoApprovalThreshold env)"
  using assms
  unfolding submitFIR_try_def Let_def issue_def fs_unlink_def
  by (auto split: option.splits sum.splits prod.splits if_splits)

lemma submitFIR_success:
  assumes "fst (submitFIR svc env now req w) = Success body"
  shows "submitFIR_try svc env now req w
           = (Inr (Success body), snd (submitFIR svc env now req w))"
  using assms
  by (auto simp: submitFIR_def split: prod.splits sum.splits error.splits)

lemma issued_success:
  assumes "fst (submitFIR svc env now req w) = Success body"
  shows "issued w (snd (submitFIR svc env now req w)) =
           CreateFIR (res_cid body) (res_similarityScore body) (victimAddress req)
           # (if js_ge (res_similarityScore body) (autoApprovalThreshold env)
              then [SetVerification (res_firId body) True] else [])"
  using try_success(1) [OF submitFIR_success [OF assms]] by (simp add: issued_def)

lemma default_threshold: "SIMILARITY_THRESHOLD env = NaN \<Longrightarrow> autoApprovalThreshold env = Num 75"
  by (simp add: autoApprovalThreshold_def js_or_def)

lemma failure_cleanup:
  assumes "submitFIR_try svc env now req w = (Inl e, w1)"
  shows "snd (submitFIR svc env now req w) = submitFIR_cleanup req w1"
    and "\<exists>m. fst (submitFIR svc env now req w) = Status500 ''Failed to process FIR submission'' m"
  using assms by (auto simp: submitFIR_def split: error.splits)

lemma cleanup_files:
  assumes "image req = Some imageFile" "audio req = Some audioFile" "imageFile \<in> files w"
  shows "files (submitFIR_cleanup req w) = files w - {imageFile, audioFile}"
  using assms by (auto simp: submitFIR_cleanup_def fs_unlink_def)

lemma try_publish_fails:
  assumes "image req = Some imageFile" "audio req = Some audioFile"
    and "ocrService_extractText svc imageFile = Inr ocrResult"
    and "sttService_transcribeAudio svc audioFile = Inr sttResult"
    and "mlService_calculateSimilarity svc (ocr_text ocrResult) (stt_text sttResult)
           = Inr similarityScore"
    and "ipfsService_uploadToIPFS svc
           (firData_of env now req ocrResult sttResult similarityScore) = Inl e"
  shows "submitFIR_try svc env now req w = (Inl e, w)"
  using assms by (simp add: submitFIR_try_def Let_def)

lemma try_create_fails:
  assumes "image req = Some imageFile" "audio req = Some audioFile"
    and "ocrService_extractText svc imageFile = Inr ocrResult"
    and "sttService_transcribeAudio svc audioFile = Inr sttResult"
    and "mlService_calculateSimilarity svc (ocr_text ocrResult) (stt_text sttResult)
           = Inr similarityScore"
    and "ipfsService_uploadToIPFS svc
           (firData_of env now req ocrResult sttResult similarityScore) = Inr ipfsResult"
    and "blockchainService_createFIR svc (cid ipfsResult) similarityScore (victimAddress req)
           = Inl e"
  shows "submitFIR_try svc env now req w
     = (Inl e, issue (CreateFIR (cid ipfsResult) similarityScore (victimAddress req)) w)"
  using assms by (simp add: submitFIR_try_def Let_def)

text \<open>When the client is missing after initialisation.\<close>

lemma STT_initialize_None:
  "STT_initialize None fileExists SpeechClient = None"
  "\<not> fileExists keyFilename \<Longrightarrow> STT_initialize (Some keyFilename) fileExists SpeechClient = None"
  "SpeechClient keyFilename = Inl e \<Longrightarrow>
     STT_initialize (Some keyFilename) fileExists SpeechClient = None"
  by (simp_all add: STT_initialize_def)

lemma try_completes:
  assumes "image req = Some imageFile" "audio req = Some audioFile"
    and "imageFile \<in> files w" "audioFile \<in> files w" "imageFile \<noteq> audioFile"
    and "ocrService_extractText svc imageFile = Inr ocrResult"
    and "sttService_transcribeAudio svc audioFile = Inr sttResult"
    and "mlService_calculateSimilarity svc (ocr_text ocrResult) (stt_text sttResult)
           = Inr similarityScore"
    and "ipfsService_uploadToIPFS svc
           (firData_of env now req ocrResult sttResult similarityScore) = Inr ipfsResult"
    and "blockchainService_createFIR svc (cid ipfsResult) similarityScore (victimAddress req)
           = Inr blockchainResult"
    and "js_ge similarityScore (autoApprovalThreshold env) \<longrightarrow>
           blockchainService_setVerification svc (firId blockchainResult) True = Inr tx"
  shows "submitFIR svc env now req w =
    (Success
       \<lparr> res_firId = firId blockchainResult,
         res_cid = cid ipfsResult,
         res_ipfsUrl = url ipfsResult,
         res_txHash = txHash blockchainResult,
         res_ocrText = ocr_text ocrResult,
         res_sttText = stt_text sttResult,
         res_similarityScore = similarityScore,
         res_verified = js_ge similarityScore (autoApprovalThreshold env),
         res_timestamp = now,
         res_gatewayUrl = gatewayUrlOf env (cid ipfsResult) \<rparr>,
     w\<lparr> files := files w - {imageFile, audioFile},
        ledger := ledger w @
          CreateFIR (cid ipfsResult) similarityScore (victimAddress req)
          # (if js_ge similarityScore (autoApprovalThreshold env)
             then [SetVerification (firId blockchainResult) True] else []) \<rparr>)"
  using assms
  by (auto simp: submitFIR_def submitFIR_try_def Let_def fs_unlink_def issue_def
        intro!: world.equality)


subsection \<open>Concrete runs\<close>

lemmas demo_defs =
  submitFIR_def submitFIR_try_def submitFIR_cleanup_def Let_def demo_services_def demo_env_def
  demo_request_def demo_world_def firData_of_def autoApprovalThreshold_def js_or_def
  issue_def fs_unlink_def gatewayUrlOf_def transcribeAudio_def STT_initialize_def
  transcribeWithFallback_def issued_def


lemma demo_run_80:
  "submitFIR (demo_services (Num 80) True True) demo_env ''t0'' demo_request demo_world =
     (Success \<lparr> res_firId = Num 1, res_cid = ''Qm1'', res_ipfsUrl = ''https://ipfs.io/ipfs/Qm1'',
        res_txHash = ''0x01'', res_ocrText = ''theft of motorcycle'', res_sttText = mockText,
        res_similarityScore = Num 80, res_verified = True, res_timestamp = ''t0'',
        res_gatewayUrl = ''https://ipfs.io/ipfs/Qm1'' \<rparr>,
      \<lparr> files = {}, ledger = [CreateFIR ''Qm1'' (Num 80) ''0x00000000000000000000000000000000000000aa'',
          SetVerification (Num 1) True] \<rparr>)"
  by (simp add: demo_defs)


lemma demo_run_60:
  "submitFIR (demo_services (Num 60) True True) demo_env ''t0'' demo_request demo_world =
     (Success \<lparr> res_firId = Num 1, res_cid = ''Qm1'', res_ipfsUrl = ''https://ipfs.io/ipfs/Qm1'',
        res_txHash = ''0x01'', res_ocrText = ''theft of motorcycle'', res_sttText = mockText,
        res_similarityScore = Num 60, res_verified = False, res_timestamp = ''t0'',
        res_gatewayUrl = ''https://ipfs.io/ipfs/Qm1'' \<rparr>,
      \<lparr> files = {}, ledger = [CreateFIR ''Qm1'' (Num 60) ''0x00000000000000000000000000000000000000aa''] \<rparr>)"
  by (simp add: demo_defs)


lemma demo_stt:
  "sttService_transcribeAudio (demo_services s p c) path
     = Inr \<lparr> stt_text = mockText, stt_confidence = Num 50, audioHash = ''cd34'',
             provider = ''fallback'' \<rparr>"
  by (simp add: demo_defs)


section \<open>The claims about the submission handler\<close>

text \<open>
  Claim C2. In a run that ends with the success response, the ledger calls of the handler
  are \<open>createFIR\<close> followed at once by \<open>setVerification(firId, true)\<close> when the score
  is at least the threshold, and \<open>createFIR\<close> alone when it is not; with the threshold
  variable unset the threshold is 75, so a score under 75 brings no verification call; and
  no run at all issues \<open>setVerification(firId, false)\<close>.
\<close>

theorem C2_auto_verification_iff_threshold:
  "(fst (submitFIR svc env now req w) = Success body \<longrightarrow>
      issued w (snd (submitFIR svc env now req w))
        = CreateFIR (res_cid body) (res_similarityScore body) (victimAddress req)
          # (if js_ge (res_similarityScore body) (autoApprovalThreshold env)
             then [SetVerification (res_firId body) True] else []))
   \<and> (fst (submitFIR svc env now req w) = Success body \<and> SIMILARITY_THRESHOLD env = NaN
        \<and> res_similarityScore body = Num x \<and> x < 75 \<longrightarrow>
      issued w (snd (submitFIR svc env now req w))
        = [CreateFIR (res_cid body) (Num x) (victimAddress req)])
   \<and> (SIMILARITY_THRESHOLD env = NaN \<longrightarrow> autoApprovalThreshold env = Num 75)
   \<and> SetVerification fid False \<notin> set (issued w (snd (submitFIR svc env now req w)))"
  using issued_success [of svc env now req w body] default_threshold [of env]
    issued_never_False [of fid w svc env now req]
  by auto

theorem C2_witness:
  "fst (submitFIR (demo_services (Num 80) True True) demo_env ''t0'' demo_request demo_world)
     = Success \<lparr> res_firId = Num 1, res_cid = ''Qm1'', res_ipfsUrl = ''https://ipfs.io/ipfs/Qm1'',
        res_txHash = ''0x01'', res_ocrText = ''theft of motorcycle'', res_sttText = mockText,
        res_similarityScore = Num 80, res_verified = True, res_timestamp = ''t0'',
        res_gatewayUrl = ''https://ipfs.io/ipfs/Qm1'' \<rparr>
   \<and> issued demo_world
        (snd (submitFIR (demo_services (Num 80) True True) demo_env ''t0'' demo_request demo_world))
     = [CreateFIR ''Qm1'' (Num 80) (victimAddress demo_request), SetVerification (Num 1) True]
   \<and> SIMILARITY_THRESHOLD demo_env = NaN
   \<and> autoApprovalThreshold demo_env = Num 75
   \<and> issued demo_world
        (snd (submitFIR (demo_services (Num 60) True True) demo_env ''t0'' demo_request demo_world))
     = [CreateFIR ''Qm1'' (Num 60) (victimAddress demo_request)]"
proof -
  let ?body80 = "\<lparr> res_firId = Num 1, res_cid = ''Qm1'', res_ipfsUrl = ''https://ipfs.io/ipfs/Qm1'',
        res_txHash = ''0x01'', res_ocrText = ''theft of motorcycle'', res_sttText = mockText,
        res_similarityScore = Num 80, res_verified = True, res_timestamp = ''t0'',
        res_gatewayUrl = ''https://ipfs.io/ipfs/Qm1'' \<rparr>"
  let ?body60 = "\<lparr> res_firId = Num 1, res_cid = ''Qm1'', res_ipfsUrl = ''https://ipfs.io/ipfs/Qm1'',
        res_txHash = ''0x01'', res_ocrText = ''theft of motorcycle'', res_sttText = mockText,
        res_similarityScore = Num 60, res_verified = False, res_timestamp = ''t0'',
        res_gatewayUrl = ''https://ipfs.io/ipfs/Qm1'' \<rparr>"
  have r80: "fst (submitFIR (demo_services (Num 80) True True) demo_env ''t0'' demo_request
      demo_world) = Success ?body80"
    by (simp add: demo_run_80)
  have r60: "fst (submitFIR (demo_services (Num 60) True True) demo_env ''t0'' demo_request
      demo_world) = Success ?body60"
    by (simp add: demo_run_60)
  have t: "SIMILARITY_THRESHOLD demo_env = NaN" by (simp add: demo_env_def)
  show ?thesis
    using C2_auto_verification_iff_threshold
        [of "demo_services (Num 80) True True" demo_env "''t0''" demo_request demo_world
            ?body80 80 "Num 1"]
      C2_auto_verification_iff_threshold
        [of "demo_services (Num 60) True True" demo_env "''t0''" demo_request demo_world
            ?body60 60 "Num 1"]
      r80 r60 t
    by simp
qed


text \<open>
  Claim C6. Take a run in which both uploads are on disk and extraction, transcription and
  scoring succeed. If the upload to storage throws, the handler issues no ledger call,
  removes both uploaded files and answers with status 500. If the upload succeeds and
  \<open>createFIR\<close> throws, the one ledger call issued is that \<open>createFIR\<close>: no
  \<open>setVerification\<close> follows, and both files are removed as well.
\<close>

theorem C6_failed_publish_or_create:
  assumes "image req = Some imageFile" and "audio req = Some audioFile"
    and "imageFile \<in> files w"
    and "ocrService_extractText svc imageFile = Inr ocrResult"
    and "sttService_transcribeAudio svc audioFile = Inr sttResult"
    and "mlService_calculateSimilarity svc (ocr_text ocrResult) (stt_text sttResult)
           = Inr similarityScore"
  shows
    "(ipfsService_uploadToIPFS svc (firData_of env now req ocrResult sttResult similarityScore)
        = Inl e \<longrightarrow>
        issued w (snd (submitFIR svc env now req w)) = []
      \<and> files (snd (submitFIR svc env now req w)) = files w - {imageFile, audioFile}
      \<and> (\<exists>m. fst (submitFIR svc env now req w)
              = Status500 ''Failed to process FIR submission'' m))
   \<and> (ipfsService_uploadToIPFS svc (firData_of env now req ocrResult sttResult similarityScore)
        = Inr ipfsResult
      \<and> blockchainService_createFIR svc (cid ipfsResult) similarityScore (victimAddress req)
        = Inl e \<longrightarrow>
        issued w (snd (submitFIR svc env now req w))
          = [CreateFIR (cid ipfsResult) similarityScore (victimAddress req)]
      \<and> files (snd (submitFIR svc env now req w)) = files w - {imageFile, audioFile}
      \<and> (\<exists>m. fst (submitFIR svc env now req w)
              = Status500 ''Failed to process FIR submission'' m))"
proof (intro conjI impI)
  assume p: "ipfsService_uploadToIPFS svc
      (firData_of env now req ocrResult sttResult similarityScore) = Inl e"
  have t: "submitFIR_try svc env now req w = (Inl e, w)"
    using assms(1,2,4,5,6) p by (rule try_publish_fails)
  show "issued w (snd (submitFIR svc env now req w)) = []"
    unfolding failure_cleanup(1) [OF t] by (simp add: issued_def)
  show "files (snd (submitFIR svc env now req w)) = files w - {imageFile, audioFile}"
    unfolding failure_cleanup(1) [OF t] using assms(1-3) by (rule cleanup_files)
  show "\<exists>m. fst (submitFIR svc env now req w) = Status500 ''Failed to process FIR submission'' m"
    using t by (rule failure_cleanup(2))
next
  assume c: "ipfsService_uploadToIPFS svc
        (firData_of env now req ocrResult sttResult similarityScore) = Inr ipfsResult
      \<and> blockchainService_createFIR svc (cid ipfsResult) similarityScore (victimAddress req)
        = Inl e"
  let ?w1 = "issue (CreateFIR (cid ipfsResult) similarityScore (victimAddress req)) w"
  have t: "submitFIR_try svc env now req w = (Inl e, ?w1)"
    using assms(1,2,4,5,6) conjunct1 [OF c] conjunct2 [OF c] by (rule try_create_fails)
  show "issued w (snd (submitFIR svc env now req w))
      = [CreateFIR (cid ipfsResult) similarityScore (victimAddress req)]"
    unfolding failure_cleanup(1) [OF t] by (simp add: issued_def issue_def)
  have "imageFile \<in> files ?w1" using assms(3) by (simp add: issue_def)
  then have "files (submitFIR_cleanup req ?w1) = files ?w1 - {imageFile, audioFile}"
    using assms(1,2) by (rule cleanup_files [rotated 2])
  then show "files (snd (submitFIR svc env now req w)) = files w - {imageFile, audioFile}"
    unfolding failure_cleanup(1) [OF t] by (simp add: issue_def)
  show "\<exists>m. fst (submitFIR svc env now req w) = Status500 ''Failed to process FIR submission'' m"
    using t by (rule failure_cleanup(2))
qed

theorem C6_witness:
  "ipfsService_uploadToIPFS (demo_services (Num 80) False True)
       (firData_of demo_env ''t0'' demo_request
          \<lparr> ocr_text = ''theft of motorcycle'', ocr_confidence = Num 90, imageHash = ''ab12'' \<rparr>
          \<lparr> stt_text = mockText, stt_confidence = Num 50, audioHash = ''cd34'',
            provider = ''fallback'' \<rparr> (Num 80))
     = Inl (Error ''No IPFS client available and Pinata not configured'')
   \<and> issued demo_world
        (snd (submitFIR (demo_services (Num 80) False True) demo_env ''t0'' demo_request
           demo_world)) = []
   \<and> files (snd (submitFIR (demo_services (Num 80) False True) demo_env ''t0'' demo_request
           demo_world)) = {}
   \<and> blockchainService_createFIR (demo_services (Num 80) True False) ''Qm1'' (Num 80)
        (victimAddress demo_request) = Inl (Error ''Transaction failed'')
   \<and> issued demo_world
        (snd (submitFIR (demo_services (Num 80) True False) demo_env ''t0'' demo_request
           demo_world)) = [CreateFIR ''Qm1'' (Num 80) (victimAddress demo_request)]
   \<and> files (snd (submitFIR (demo_services (Num 80) True False) demo_env ''t0'' demo_request
           demo_world)) = {}"
proof -
  let ?ocr = "\<lparr> ocr_text = ''theft of motorcycle'', ocr_confidence = Num 90,
      imageHash = ''ab12'' \<rparr>"
  let ?stt = "\<lparr> stt_text = mockText, stt_confidence = Num 50, audioHash = ''cd34'',
      provider = ''fallback'' \<rparr>"
  have i: "image demo_request = Some ''uploads/image-1.png''"
    and a: "audio demo_request = Some ''uploads/audio-1.wav''"
    by (simp_all add: demo_request_def)
  have f: "''uploads/image-1.png'' \<in> files demo_world" by (simp add: demo_world_def)
  have o: "ocrService_extractText (demo_services (Num 80) p c) ''uploads/image-1.png'' = Inr ?ocr"
    for p c by (simp add: demo_services_def)
  have s: "sttService_transcribeAudio (demo_services (Num 80) p c) ''uploads/audio-1.wav''
      = Inr ?stt" for p c by (rule demo_stt)
  have m: "mlService_calculateSimilarity (demo_services (Num 80) p c) (ocr_text ?ocr)
      (stt_text ?stt) = Inr (Num 80)" for p c by (simp add: demo_services_def)
  have fs: "files demo_world - {''uploads/image-1.png'', ''uploads/audio-1.wav''} = {}"
    by (simp add: demo_world_def)
  show ?thesis
    using C6_failed_publish_or_create [OF i a f o s m,
        where env = demo_env and now = "''t0''" and p1 = False and c1 = True
          and e = "Error ''No IPFS client available and Pinata not configured''"]
      C6_failed_publish_or_create [OF i a f o s m,
        where env = demo_env and now = "''t0''" and p1 = True and c1 = False
          and ipfsResult = "\<lparr> cid = ''Qm1'', url = ''https://ipfs.io/ipfs/Qm1'' \<rparr>"
          and e = "Error ''Transaction failed''"]
    unfolding fs by (simp add: demo_services_def)
qed


text \<open>
  Claim C8. When initialisation leaves the transcriber without a cloud client,
  \<open>transcribeAudio\<close> returns the placeholder text tagged \<open>fallback\<close> with confidence
  50, which is at most 50. A handler that runs on this transcriber goes through every later
  stage whenever the other services succeed: the scorer is given the extracted text and the
  placeholder text, the bundle with both texts, the score and the two hashes is published,
  \<open>createFIR\<close> is issued with the published identifier and the score, followed by
  \<open>setVerification(firId, true)\<close> exactly when the score reaches the threshold, both
  uploaded files are removed, and the answer is the success response built from the
  results of all the stages.
\<close>

theorem C8_unavailable_speech_provider:
  assumes "STT_initialize googleCredentials fileExists SpeechClient = None"
  shows
    "(\<exists>r. transcribeAudio (STT_initialize googleCredentials fileExists SpeechClient)
            transcribeWithGoogleCloud calculateAudioHash audioFile = Inr r
         \<and> provider r = ''fallback'' \<and> stt_confidence r = Num 50
         \<and> js_ge (Num 50) (stt_confidence r) \<and> stt_text r = mockText)
   \<and> (sttService_transcribeAudio svc
          = transcribeAudio (STT_initialize googleCredentials fileExists SpeechClient)
              transcribeWithGoogleCloud calculateAudioHash
      \<and> image req = Some imageFile \<and> audio req = Some audioFile
      \<and> imageFile \<in> files w \<and> audioFile \<in> files w \<and> imageFile \<noteq> audioFile
      \<and> ocrService_extractText svc imageFile = Inr ocrResult
      \<and> mlService_calculateSimilarity svc (ocr_text ocrResult) mockText = Inr similarityScore
      \<and> ipfsService_uploadToIPFS svc
            \<lparr> fd_victimAddress = victimAddress req,
              fd_ocrText = ocr_text ocrResult,
              fd_sttText = mockText,
              fd_similarityScore = similarityScore,
              fd_verified = js_ge similarityScore (autoApprovalThreshold env),
              fd_timestamp = now,
              fd_imageHash = imageHash ocrResult,
              fd_audioHash = calculateAudioHash audioFile \<rparr> = Inr ipfsResult
      \<and> blockchainService_createFIR svc (cid ipfsResult) similarityScore (victimAddress req)
            = Inr blockchainResult
      \<and> (js_ge similarityScore (autoApprovalThreshold env) \<longrightarrow>
            blockchainService_setVerification svc (firId blockchainResult) True = Inr tx)
      \<longrightarrow>
        submitFIR svc env now req w =
          (Success
             \<lparr> res_firId = firId blockchainResult,
               res_cid = cid ipfsResult,
               res_ipfsUrl = url ipfsResult,
               res_txHash = txHash blockchainResult,
               res_ocrText = ocr_text ocrResult,
               res_sttText = mockText,
               res_similarityScore = similarityScore,
               res_verified = js_ge similarityScore (autoApprovalThreshold env),
               res_timestamp = now,
               res_gatewayUrl = gatewayUrlOf env (cid ipfsResult) \<rparr>,
           w\<lparr> files := files w - {imageFile, audioFile},
              ledger := ledger w @
                CreateFIR (cid ipfsResult) similarityScore (victimAddress req)
                # (if js_ge similarityScore (autoApprovalThreshold env)
                   then [SetVerification (firId blockchainResult) True] else []) \<rparr>)
      \<and> issued w (snd (submitFIR svc env now req w))
          = CreateFIR (cid ipfsResult) similarityScore (victimAddress req)
            # (if js_ge similarityScore (autoApprovalThreshold env)
               then [SetVerification (firId blockchainResult) True] else [])
      \<and> imageFile \<notin> files (snd (submitFIR svc env now req w))
      \<and> audioFile \<notin> files (snd (submitFIR svc env now req w)))"
proof (intro conjI impI)
  let ?r = "\<lparr> stt_text = mockText, stt_confidence = Num 50,
      audioHash = calculateAudioHash audioFile, provider = ''fallback'' \<rparr>"
  let ?data = "\<lparr> fd_victimAddress = victimAddress req,
              fd_ocrText = ocr_text ocrResult,
              fd_sttText = mockText,
              fd_similarityScore = similarityScore,
              fd_verified = js_ge similarityScore (autoApprovalThreshold env),
              fd_timestamp = now,
              fd_imageHash = imageHash ocrResult,
              fd_audioHash = calculateAudioHash audioFile \<rparr>"
  have r: "transcribeAudio (STT_initialize googleCredentials fileExists SpeechClient)
      transcribeWithGoogleCloud calculateAudioHash audioFile = Inr ?r"
    by (simp add: assms transcribeAudio_def transcribeWithFallback_def)
  then show "\<exists>r. transcribeAudio (STT_initialize googleCredentials fileExists SpeechClient)
            transcribeWithGoogleCloud calculateAudioHash audioFile = Inr r
         \<and> provider r = ''fallback'' \<and> stt_confidence r = Num 50
         \<and> js_ge (Num 50) (stt_confidence r) \<and> stt_text r = mockText"
    by simp
  have d: "firData_of env now req ocrResult ?r similarityScore = ?data"
    by (simp add: firData_of_def)
  assume h: "sttService_transcribeAudio svc
          = transcribeAudio (STT_initialize googleCredentials fileExists SpeechClient)
              transcribeWithGoogleCloud calculateAudioHash
      \<and> image req = Some imageFile \<and> audio req = Some audioFile
      \<and> imageFile \<in> files w \<and> audioFile \<in> files w \<and> imageFile \<noteq> audioFile
      \<and> ocrService_extractText svc imageFile = Inr ocrResult
      \<and> mlService_calculateSimilarity svc (ocr_text ocrResult) mockText = Inr similarityScore
      \<and> ipfsService_uploadToIPFS svc ?data = Inr ipfsResult
      \<and> blockchainService_createFIR svc (cid ipfsResult) similarityScore (victimAddress req)
            = Inr blockchainResult
      \<and> (js_ge similarityScore (autoApprovalThreshold env) \<longrightarrow>
            blockchainService_setVerification svc (firId blockchainResult) True = Inr tx)"
  then have s: "sttService_transcribeAudio svc audioFile = Inr ?r" using r by simp
  have run: "submitFIR svc env now req w =
          (Success
             \<lparr> res_firId = firId blockchainResult,
               res_cid = cid ipfsResult,
               res_ipfsUrl = url ipfsResult,
               res_txHash = txHash blockchainResult,
               res_ocrText = ocr_text ocrResult,
               res_sttText = stt_text ?r,
               res_similarityScore = similarityScore,
               res_verified = js_ge similarityScore (autoApprovalThreshold env),
               res_timestamp = now,
               res_gatewayUrl = gatewayUrlOf env (cid ipfsResult) \<rparr>,
           w\<lparr> files := files w - {imageFile, audioFile},
              ledger := ledger w @
                CreateFIR (cid ipfsResult) similarityScore (victimAddress req)
                # (if js_ge similarityScore (autoApprovalThreshold env)
                   then [SetVerification (firId blockchainResult) True] else []) \<rparr>)"
    apply (insert h s)
    apply (elim conjE)
    apply (rule try_completes [where tx = tx and sttResult = "?r"])
    apply (simp_all add: d)
    done
  then show "submitFIR svc env now req w =
          (Success
             \<lparr> res_firId = firId blockchainResult,
               res_cid = cid ipfsResult,
               res_ipfsUrl = url ipfsResult,
               res_txHash = txHash blockchainResult,
               res_ocrText = ocr_text ocrResult,
               res_sttText = mockText,
               res_similarityScore = similarityScore,
               res_verified = js_ge similarityScore (autoApprovalThreshold env),
               res_timestamp = now,
               res_gatewayUrl = gatewayUrlOf env (cid ipfsResult) \<rparr>,
           w\<lparr> files := files w - {imageFile, audioFile},
              ledger := ledger w @
                CreateFIR (cid ipfsResult) similarityScore (victimAddress req)
                # (if js_ge similarityScore (autoApprovalThreshold env)
                   then [SetVerification (firId blockchainResult) True] else []) \<rparr>)"
    by simp
  show "issued w (snd (submitFIR svc env now req w))
          = CreateFIR (cid ipfsResult) similarityScore (victimAddress req)
            # (if js_ge similarityScore (autoApprovalThreshold env)
               then [SetVerification (firId blockchainResult) True] else [])"
    unfolding run by (simp add: issued_def)
  show "imageFile \<notin> files (snd (submitFIR svc env now req w))"
    unfolding run by simp
  show "audioFile \<notin> files (snd (submitFIR svc env now req w))"
    unfolding run by simp
qed

theorem C8_witness:
  "STT_initialize None (\<lambda>path. False) (\<lambda>path. (Inr () :: error + unit)) = None
   \<and> (\<exists>r. transcribeAudio (STT_initialize None (\<lambda>path. False) (\<lambda>path. (Inr () :: error + unit)))
            (\<lambda>client path. Inl (Error ''unreachable'')) (\<lambda>path. ''cd34'') ''uploads/audio-1.wav''
          = Inr r \<and> provider r = ''fallback'' \<and> stt_confidence r = Num 50)
   \<and> submitFIR (demo_services (Num 80) True True) demo_env ''t0'' demo_request demo_world =
       (Success
          \<lparr> res_firId = Num 1, res_cid = ''Qm1'', res_ipfsUrl = ''https://ipfs.io/ipfs/Qm1'',
            res_txHash = ''0x01'', res_ocrText = ''theft of motorcycle'', res_sttText = mockText,
            res_similarityScore = Num 80, res_verified = True, res_timestamp = ''t0'',
            res_gatewayUrl = ''https://ipfs.io/ipfs/Qm1'' \<rparr>,
        \<lparr> files = {},
          ledger = [CreateFIR ''Qm1'' (Num 80) ''0x00000000000000000000000000000000000000aa'',
                    SetVerification (Num 1) True] \<rparr>)"
proof -
  let ?ocr = "\<lparr> ocr_text = ''theft of motorcycle'', ocr_confidence = Num 90,
      imageHash = ''ab12'' \<rparr>"
  let ?ipfs = "\<lparr> cid = ''Qm1'', url = ''https://ipfs.io/ipfs/Qm1'' \<rparr>"
  let ?created = "\<lparr> firId = Num 1, txHash = ''0x01'' \<rparr>"
  have n: "STT_initialize None (\<lambda>path. False) (\<lambda>path. (Inr () :: error + unit)) = None"
    by (simp add: STT_initialize_def)
  have h: "sttService_transcribeAudio (demo_services (Num 80) True True)
          = transcribeAudio (STT_initialize None (\<lambda>path. False) (\<lambda>path. (Inr () :: error + unit)))
              (\<lambda>client path. Inl (Error ''unreachable'')) (\<lambda>path. ''cd34'')
      \<and> image demo_request = Some ''uploads/image-1.png''
      \<and> audio demo_request = Some ''uploads/audio-1.wav''
      \<and> ''uploads/image-1.png'' \<in> files demo_world
      \<and> ''uploads/audio-1.wav'' \<in> files demo_world
      \<and> ''uploads/image-1.png'' \<noteq> ''uploads/audio-1.wav''
      \<and> ocrService_extractText (demo_services (Num 80) True True) ''uploads/image-1.png''
          = Inr ?ocr
      \<and> mlService_calculateSimilarity (demo_services (Num 80) True True)
            (ocr_text ?ocr) mockText = Inr (Num 80)
      \<and> ipfsService_uploadToIPFS (demo_services (Num 80) True True)
            \<lparr> fd_victimAddress = victimAddress demo_request,
              fd_ocrText = ocr_text ?ocr,
              fd_sttText = mockText,
              fd_similarityScore = Num 80,
              fd_verified = js_ge (Num 80) (autoApprovalThreshold demo_env),
              fd_timestamp = ''t0'',
              fd_imageHash = imageHash ?ocr,
              fd_audioHash = (\<lambda>path. ''cd34'') ''uploads/audio-1.wav'' \<rparr> = Inr ?ipfs
      \<and> blockchainService_createFIR (demo_services (Num 80) True True)
            (cid ?ipfs) (Num 80) (victimAddress demo_request) = Inr ?created
      \<and> (js_ge (Num 80) (autoApprovalThreshold demo_env) \<longrightarrow>
            blockchainService_setVerification (demo_services (Num 80) True True)
              (firId ?created) True = Inr ''0x02'')"
    by (simp add: demo_services_def demo_request_def demo_world_def)
  have w: "demo_world\<lparr> files := files demo_world
                  - {''uploads/image-1.png'', ''uploads/audio-1.wav''},
              ledger := ledger demo_world @
                CreateFIR (cid ?ipfs) (Num 80) (victimAddress demo_request)
                # (if js_ge (Num 80) (autoApprovalThreshold demo_env)
                   then [SetVerification (firId ?created) True] else []) \<rparr>
      = \<lparr> files = {},
          ledger = [CreateFIR ''Qm1'' (Num 80) ''0x00000000000000000000000000000000000000aa'',
                    SetVerification (Num 1) True] \<rparr>"
    by (simp add: demo_world_def demo_request_def demo_env_def autoApprovalThreshold_def
          js_or_def)
  have b: "\<lparr> res_firId = firId ?created, res_cid = cid ?ipfs, res_ipfsUrl = url ?ipfs,
            res_txHash = txHash ?created, res_ocrText = ocr_text ?ocr, res_sttText = mockText,
            res_similarityScore = Num 80,
            res_verified = js_ge (Num 80) (autoApprovalThreshold demo_env),
            res_timestamp = ''t0'', res_gatewayUrl = gatewayUrlOf demo_env (cid ?ipfs) \<rparr>
      = \<lparr> res_firId = Num 1, res_cid = ''Qm1'', res_ipfsUrl = ''https://ipfs.io/ipfs/Qm1'',
            res_txHash = ''0x01'', res_ocrText = ''theft of motorcycle'', res_sttText = mockText,
            res_similarityScore = Num 80, res_verified = True, res_timestamp = ''t0'',
            res_gatewayUrl = ''https://ipfs.io/ipfs/Qm1'' \<rparr>"
    by (simp add: demo_env_def autoApprovalThreshold_def js_or_def gatewayUrlOf_def)
  show ?thesis
    using C8_unavailable_speech_provider [OF n, THEN conjunct1,
        of "\<lambda>client path. Inl (Error ''unreachable'')" "\<lambda>path. ''cd34''" "''uploads/audio-1.wav''"]
      C8_unavailable_speech_provider [OF n, THEN conjunct2, rule_format, OF h,
        THEN conjunct1] n
    unfolding w b by auto
qed

section \<open>Properties of the ledger contract\<close>

lemma demo_registry_roles:
  "hasRole demo_registry VICTIM_ROLE 2" "hasRole demo_registry GOV_ROLE 1"
  "\<not> fir_exists (firs demo_registry 5)"
  by (simp_all add: demo_registry_def constructor_def grantVictimRole_def grantRole_def
      state_after_def zero_FIR_def)

lemma createFIR_reverted_iff:
  "reverted (createFIR sender block_timestamp ipfsCid similarityScore st)
     \<longleftrightarrow> \<not> hasRole st VICTIM_ROLE sender \<or> ipfsCid = [] \<or> 100 < similarityScore"
  by (auto simp: createFIR_def reverted_def Let_def)

lemma setVerification_reverted_iff:
  "reverted (setVerification sender fid verified st)
     \<longleftrightarrow> \<not> hasRole st GOV_ROLE sender \<or> \<not> fir_exists (firs st fid)"
  by (auto simp: setVerification_def reverted_def Let_def)

lemma reverted_state: "reverted out \<Longrightarrow> state_after st out = st"
  by (cases out) (auto simp: reverted_def state_after_def)

text \<open>A call that meets the three conditions creates the record under the next id.\<close>

lemma createFIR_returns:
  "hasRole st VICTIM_ROLE sender \<Longrightarrow> ipfsCid \<noteq> [] \<Longrightarrow> similarityScore \<le> 100 \<Longrightarrow>
   \<exists>st1. createFIR sender block_timestamp ipfsCid similarityScore st
            = Returned (firCounter st + 1) st1
        \<and> fir_exists (firs st1 (firCounter st + 1))
        \<and> fir_ipfsCid (firs st1 (firCounter st + 1)) = ipfsCid
        \<and> fir_similarityScore (firs st1 (firCounter st + 1)) = similarityScore
        \<and> fir_verified (firs st1 (firCounter st + 1)) = (75 \<le> similarityScore)"
  by (simp add: createFIR_def Let_def emit_def)

text \<open>
  Claim C7. \<open>createFIR\<close> reverts when the content identifier is empty or the score is above
  100 (the score is an unsigned integer, so that is every score outside 0 to 100), and
  \<open>setVerification\<close> reverts when no record with the given id exists; a call that reverts
  leaves the storage of the contract as it was.
\<close>

theorem C7_ledger_writes_revert:
  "(ipfsCid = [] \<or> 100 < similarityScore \<longrightarrow>
      reverted (createFIR sender block_timestamp ipfsCid similarityScore st)
    \<and> state_after st (createFIR sender block_timestamp ipfsCid similarityScore st) = st)
   \<and> (\<not> fir_exists (firs st fid) \<longrightarrow>
      reverted (setVerification gov fid verified st)
    \<and> state_after st (setVerification gov fid verified st) = st)"
  using createFIR_reverted_iff [of sender block_timestamp ipfsCid similarityScore st]
    setVerification_reverted_iff [of gov fid verified st]
  by (auto intro: reverted_state)

theorem C7_witness:
  "hasRole demo_registry VICTIM_ROLE 2
   \<and> reverted (createFIR 2 1700000000 [] 80 demo_registry)
   \<and> state_after demo_registry (createFIR 2 1700000000 [] 80 demo_registry) = demo_registry
   \<and> reverted (createFIR 2 1700000000 ''Qm1'' 101 demo_registry)
   \<and> state_after demo_registry (createFIR 2 1700000000 ''Qm1'' 101 demo_registry) = demo_registry
   \<and> hasRole demo_registry GOV_ROLE 1
   \<and> reverted (setVerification 1 5 True demo_registry)
   \<and> state_after demo_registry (setVerification 1 5 True demo_registry) = demo_registry"
  using C7_ledger_writes_revert [of "[]" 80 2 1700000000 demo_registry 5 1 True]
    C7_ledger_writes_revert [of "''Qm1''" 101 2 1700000000 demo_registry 5 1 True]
    demo_registry_roles
  by simp

section \<open>Properties of the two text cleaners\<close>

lemma space_facts [simp]:
  "is_space CHR '' ''" "\<not> is_sentence_end CHR '' ''" "\<not> is_lower_az CHR '' ''"
  "\<not> is_punct CHR '' ''" "is_kept CHR '' ''"
  by (simp_all add: is_space_def is_sentence_end_def is_lower_az_def is_punct_def is_kept_def)




































subsection \<open>Characters that are not white space survive the transcriber's cleaner\<close>








subsection \<open>The extractor's cleaner returns kept characters only\<close>






subsection \<open>A sentence end directly before a lower-case letter\<close>














subsection \<open>The extractor's cleaner keeps such a pair\<close>








subsection \<open>Where the two cleaners agree\<close>




end
